theory Spec2Isabelle
  imports Main "HOL-Library.Product_Lexorder"
begin

section \<open>Values shared by the services\<close>

text \<open>
  Identifiers are the UUIDs of the store; only their equality matters, so they are
  natural numbers here. A calendar date is its proleptic Gregorian ordinal, the value
  of Python's \<^verbatim>\<open>date.toordinal()\<close>: day 1 is 0001-01-01, a Monday, and
  \<^verbatim>\<open>date.max\<close> is day 3652059.
\<close>

type_synonym uuid = nat
type_synonym date = int

text \<open>
  A \<^verbatim>\<open>datetime.time\<close>, down to the second. The store renders a time column as
  \<^verbatim>\<open>HH:MM:SS\<close> and \<^verbatim>\<open>strftime("%H:%M:%S")\<close> writes the same three fields, so a
  time column holds a value of this type.
\<close>

record pytime =
  hour :: int
  minute :: int
  second :: int

record timestamp =
  ts_date :: date
  ts_time :: pytime

text \<open>The exceptions the services can raise; all of them are caught by the
  \<^verbatim>\<open>except Exception\<close> of the service that raised them.\<close>

datatype error = ValueError | TypeError | AttributeError | KeyError | OverflowError

text \<open>
  A key of a JSON object read with \<^verbatim>\<open>d.get(key, default)\<close> or \<^verbatim>\<open>d[key]\<close>: the key
  may be absent, may hold \<^verbatim>\<open>null\<close>, or may hold a value.
\<close>

datatype 'a field = Missing | Null | Val 'a

text \<open>A message is a fixed text, or a fixed prefix followed by \<^verbatim>\<open>str(e)\<close> of the
  exception caught; the exception's own text is not modelled, only its kind.\<close>

datatype message = Text string | ErrorText string error

subsection \<open>Python's string functions used on schedule data\<close>

text \<open>\<^verbatim>\<open>s.split(sep)\<close> with a one-character separator: never an empty list.\<close>

fun split_on :: "char \<Rightarrow> string \<Rightarrow> string list" where
  "split_on sep [] = [[]]"
| "split_on sep (c # cs) =
     (if c = sep then [] # split_on sep cs
      else (case split_on sep cs of
              [] \<Rightarrow> [[c]]
            | p # ps \<Rightarrow> (c # p) # ps))"

definition is_digit :: "char \<Rightarrow> bool" where
  "is_digit c = (48 \<le> (of_char c :: nat) \<and> (of_char c :: nat) \<le> 57)"

definition digit_val :: "char \<Rightarrow> int" where
  "digit_val c = int (of_char c) - 48"

text \<open>The characters \<^verbatim>\<open>int()\<close> skips around an ASCII literal: the space and the five
  controls from tab to carriage return.\<close>

definition is_space :: "char \<Rightarrow> bool" where
  "is_space c = ((of_char c :: nat) = 32 \<or> (9 \<le> (of_char c :: nat) \<and> (of_char c :: nat) \<le> 13))"

definition strip :: "string \<Rightarrow> string" where
  "strip s = rev (dropWhile is_space (rev (dropWhile is_space s)))"

text \<open>The digits of an integer literal: decimal digits, single underscores allowed
  between two digits.\<close>

fun int_body :: "string \<Rightarrow> bool" where
  "int_body [] = False"
| "int_body [c] = is_digit c"
| "int_body (c # d # cs) =
     (is_digit c \<and> (if d = CHR ''_'' then int_body cs else int_body (d # cs)))"

definition digits_value :: "string \<Rightarrow> int" where
  "digits_value s = foldl (\<lambda>acc c. 10 * acc + digit_val c) 0 (filter is_digit s)"

text \<open>
  \<^verbatim>\<open>int\<close> belongs to Python's library: the services below take it as the parameter
  \<open>py_int\<close>, and what is proved of them holds whatever \<^verbatim>\<open>int\<close> does. The examples
  need a value for it. \<open>ascii_int\<close> is \<^verbatim>\<open>int(s)\<close> for a string of ASCII characters:
  surrounding whitespace is dropped, one sign is allowed, the digits may be separated by
  single underscores, more than 4300 digits are refused, and anything else raises
  \<^verbatim>\<open>ValueError\<close>. For a string with other characters it is not \<^verbatim>\<open>int\<close>, which also reads the
  digits and skips the spaces of other scripts.
\<close>

definition ascii_int :: "string \<Rightarrow> error + int" where
  "ascii_int s =
     (case strip s of
        [] \<Rightarrow> Inl ValueError
      | c # cs \<Rightarrow>
          (let body = (if c = CHR ''-'' \<or> c = CHR ''+'' then cs else c # cs)
           in if int_body body \<and> length (filter is_digit body) \<le> 4300
              then Inr ((if c = CHR ''-'' then - 1 else 1) * digits_value body)
              else Inl ValueError))"

text \<open>\<^verbatim>\<open>time(h, m)\<close>: both arguments are first converted to C integers, which raises
  \<^verbatim>\<open>OverflowError\<close> for a value beyond 32 bits; then the fields are checked.\<close>

definition c_int :: "int \<Rightarrow> bool" where
  "c_int n = (- 2147483648 \<le> n \<and> n \<le> 2147483647)"

definition py_time :: "int \<Rightarrow> int \<Rightarrow> error + pytime" where
  "py_time h m =
     (if \<not> c_int h \<or> \<not> c_int m then Inl OverflowError
      else if 0 \<le> h \<and> h \<le> 23 \<and> 0 \<le> m \<and> m \<le> 59
      then Inr \<lparr>hour = h, minute = m, second = 0\<rparr>
      else Inl ValueError)"

text \<open>
  \<^verbatim>\<open>h, m = map(int, s.split(":"))\<close>. The unpacking draws from the lazy \<^verbatim>\<open>map\<close>: it
  converts the first part, then the second, and then asks for a third to see that there
  is none. A conversion that raises ends it with that error; too few parts, or a third
  part that converts, is the \<^verbatim>\<open>ValueError\<close> of the unpacking.
\<close>

definition parse_hour_min :: "(string \<Rightarrow> error + int) \<Rightarrow> string \<Rightarrow> error + (int \<times> int)" where
  "parse_hour_min py_int s =
     (case split_on CHR '':'' s of
        [] \<Rightarrow> Inl ValueError
      | a # parts \<Rightarrow>
          (case py_int a of
             Inl e \<Rightarrow> Inl e
           | Inr h \<Rightarrow>
               (case parts of
                  [] \<Rightarrow> Inl ValueError
                | b # others \<Rightarrow>
                    (case py_int b of
                       Inl e \<Rightarrow> Inl e
                     | Inr m \<Rightarrow>
                         (case others of
                            [] \<Rightarrow> Inr (h, m)
                          | c # rest \<Rightarrow>
                              (case py_int c of Inl e \<Rightarrow> Inl e | Inr n \<Rightarrow> Inl ValueError))))))"

definition digit_char :: "nat \<Rightarrow> char" where
  "digit_char n = ''0123456789'' ! n"

definition pad2 :: "int \<Rightarrow> string" where
  "pad2 n = [digit_char (nat n div 10), digit_char (nat n mod 10)]"

text \<open>\<^verbatim>\<open>t.strftime("%H:%M")\<close>\<close>

definition strftime_HM :: "pytime \<Rightarrow> string" where
  "strftime_HM t = pad2 (hour t) @ '':'' @ pad2 (minute t)"

text \<open>\<^verbatim>\<open>str(n)\<close> for a length.\<close>

fun str_nat :: "nat \<Rightarrow> string" where
  "str_nat n = (if n < 10 then [digit_char n] else str_nat (n div 10) @ [digit_char (n mod 10)])"

declare str_nat.simps [simp del]

text \<open>\<^verbatim>\<open>d.strftime("%A").lower()\<close>: \<^verbatim>\<open>date.weekday()\<close> is
  \<^verbatim>\<open>(toordinal() + 6) % 7\<close> with Monday as 0.\<close>

definition day_name :: "date \<Rightarrow> string" where
  "day_name d =
     [''monday'', ''tuesday'', ''wednesday'', ''thursday'', ''friday'', ''saturday'', ''sunday'']
       ! nat ((d + 6) mod 7)"

section \<open>The store\<close>

record day_schedule =
  ds_enabled :: "bool field"
  ds_start :: "string field"
  ds_end :: "string field"

record break_time =
  br_start :: "string field"
  br_end :: "string field"

record doctor =
  d_id :: uuid
  d_clinic_id :: uuid
  d_is_active :: "bool field"
  d_working_hours :: "(string \<Rightarrow> day_schedule field) field"
  d_slot_duration :: "int field"
  d_buffer_time :: "int field"
  d_break_times :: "break_time list field"

text \<open>The status column holds one of the five strings \<^verbatim>\<open>scheduled\<close>, \<^verbatim>\<open>confirmed\<close>,
  \<^verbatim>\<open>cancelled\<close>, \<^verbatim>\<open>completed\<close>, \<^verbatim>\<open>no_show\<close>.\<close>

datatype status = Scheduled | Confirmed | Cancelled | Completed | NoShow

record appointment =
  a_id :: uuid
  a_clinic_id :: uuid
  a_doctor_id :: uuid
  a_patient_id :: uuid
  a_appointment_type_id :: "uuid option"
  a_date :: date
  a_time :: pytime
  a_duration_minutes :: int
  a_reason :: "string option"
  a_status :: status
  a_confirmation_sent :: bool
  a_reminder_sent :: bool
  a_reminder_sent_at :: "timestamp option"
  a_cancellation_reason :: "string option"
  a_cancelled_at :: "timestamp option"
  a_rescheduled_at :: "timestamp option"

record patient =
  p_id :: uuid
  p_clinic_id :: uuid
  p_phone :: string
  p_name :: string
  p_email :: "string option"
  p_preferred_language :: string
  p_prefers_whatsapp :: bool

record blocked_time =
  bt_clinic_id :: uuid
  bt_doctor_id :: "uuid option"
  bt_start_datetime :: timestamp
  bt_end_datetime :: timestamp

text \<open>
  The tables, in row order. An insert appends a row. The store is taken to answer every
  request: a request that failed would raise, and the handler of the service would
  return its failure message. The columns read from the appointments and the blocked
  times are typed columns of the store (a time, an integer, a timestamp), so what
  \<^verbatim>\<open>time.fromisoformat\<close> and the slicing of a rendered timestamp give back are the
  hour and minute stored. The working hours and the breaks of a doctor are JSON and
  keep their strings.
\<close>

record store =
  doctors :: "doctor list"
  appointments :: "appointment list"
  patients :: "patient list"
  blocked_times :: "blocked_time list"

definition active :: "status \<Rightarrow> bool" where
  "active st = (st = Scheduled \<or> st = Confirmed)"

section \<open>The availability service\<close>

record availability_result =
  available :: bool
  slots :: "string list"
  message :: message

record interval =
  iv_start :: int
  iv_end :: int

definition time_to_minutes :: "pytime \<Rightarrow> int" where
  "time_to_minutes t = hour t * 60 + minute t"

definition minutes_to_time :: "int \<Rightarrow> error + pytime" where
  "minutes_to_time minutes = py_time (minutes div 60) (minutes mod 60)"

text \<open>The inner \<^verbatim>\<open>for\<close> loop of the slot walk: does the slot meet an occupied interval?\<close>

definition conflicts :: "int \<Rightarrow> int \<Rightarrow> interval list \<Rightarrow> bool" where
  "conflicts slot_start slot_end occupied =
     list_ex (\<lambda>booked. \<not> (slot_end \<le> iv_start booked \<or> slot_start \<ge> iv_end booked)) occupied"

text \<open>
  The \<^verbatim>\<open>while\<close> loop. It need not end (a stride of zero), so it returns an option,
  \<open>None\<close> standing for a loop that runs forever. A \<^verbatim>\<open>null\<close> buffer raises when the
  cursor is advanced; a cursor outside the day raises when the slot is appended.
\<close>

partial_function (option) slot_loop ::
  "int \<Rightarrow> int \<Rightarrow> int \<Rightarrow> int option \<Rightarrow> interval list \<Rightarrow> pytime list \<Rightarrow> (error + pytime list) option"
where
  "slot_loop current_minutes end_minutes slot_duration buffer_time occupied available_slots =
     (if current_minutes + slot_duration \<le> end_minutes then
        (if conflicts current_minutes (current_minutes + slot_duration) occupied then
           (case buffer_time of
              None \<Rightarrow> Some (Inl TypeError)
            | Some b \<Rightarrow>
                slot_loop (current_minutes + (slot_duration + b)) end_minutes slot_duration
                  buffer_time occupied available_slots)
         else
           (case minutes_to_time current_minutes of
              Inl e \<Rightarrow> Some (Inl e)
            | Inr t \<Rightarrow>
                (case buffer_time of
                   None \<Rightarrow> Some (Inl TypeError)
                 | Some b \<Rightarrow>
                     slot_loop (current_minutes + (slot_duration + b)) end_minutes slot_duration
                       buffer_time occupied (available_slots @ [t]))))
      else Some (Inr available_slots))"

declare slot_loop.simps [code]


subsection \<open>Reading the doctor's schedule\<close>

text \<open>\<^verbatim>\<open>d.get(key, default)\<close>: the default stands in for an absent key only; a
  \<^verbatim>\<open>null\<close> comes back as \<^verbatim>\<open>None\<close>.\<close>

definition get_default :: "'a field \<Rightarrow> 'a \<Rightarrow> 'a option" where
  "get_default f dflt = (case f of Missing \<Rightarrow> Some dflt | Null \<Rightarrow> None | Val v \<Rightarrow> Some v)"

text \<open>\<^verbatim>\<open>not x\<close> for a flag that may be \<^verbatim>\<open>None\<close>.\<close>

definition falsy :: "bool option \<Rightarrow> bool" where
  "falsy x = (case x of None \<Rightarrow> True | Some b \<Rightarrow> \<not> b)"

fun try_bind :: "error + 'a \<Rightarrow> ('a \<Rightarrow> error + 'b) \<Rightarrow> error + 'b" where
  "try_bind (Inl e) f = Inl e"
| "try_bind (Inr x) f = f x"

definition empty_schedule :: day_schedule where
  "empty_schedule = \<lparr>ds_enabled = Missing, ds_start = Missing, ds_end = Missing\<rparr>"

text \<open>\<^verbatim>\<open>s.split(":")\<close> on what \<^verbatim>\<open>get\<close> returned: \<^verbatim>\<open>None\<close> has no \<^verbatim>\<open>split\<close>.\<close>

definition parse_time_str ::
  "(string \<Rightarrow> error + int) \<Rightarrow> string option \<Rightarrow> error + (int \<times> int)"
where
  "parse_time_str py_int x =
     (case x of None \<Rightarrow> Inl AttributeError | Some s \<Rightarrow> parse_hour_min py_int s)"

text \<open>Lines 78 to 85: both strings are parsed before either time is built.\<close>

definition working_window ::
  "(string \<Rightarrow> error + int) \<Rightarrow> day_schedule \<Rightarrow> error + (pytime \<times> pytime)"
where
  "working_window py_int day_schedule =
     try_bind (parse_time_str py_int (get_default (ds_start day_schedule) ''09:00''))
       (\<lambda>(start_hour, start_min).
     try_bind (parse_time_str py_int (get_default (ds_end day_schedule) ''17:00''))
       (\<lambda>(end_hour, end_min).
     try_bind (py_time start_hour start_min)
       (\<lambda>start_time.
     try_bind (py_time end_hour end_min)
       (\<lambda>end_time. Inr (start_time, end_time)))))"

subsection \<open>Occupied intervals\<close>

definition booked_slots :: "store \<Rightarrow> uuid \<Rightarrow> date \<Rightarrow> interval list" where
  "booked_slots s doctor_id target_date =
     map (\<lambda>apt. \<lparr>iv_start = time_to_minutes (a_time apt),
                  iv_end = time_to_minutes (a_time apt) + a_duration_minutes apt\<rparr>)
       (filter (\<lambda>apt. a_doctor_id apt = doctor_id \<and> a_date apt = target_date
                       \<and> active (a_status apt))
          (appointments s))"

text \<open>
  \<^verbatim>\<open>time.fromisoformat(b[key])\<close> for a break entry. \<^verbatim>\<open>time.fromisoformat\<close> belongs to
  Python's library; the services take it as the parameter \<open>fromisoformat\<close>.
\<close>

definition break_bound :: "(string \<Rightarrow> error + pytime) \<Rightarrow> string field \<Rightarrow> error + pytime" where
  "break_bound fromisoformat f =
     (case f of Missing \<Rightarrow> Inl KeyError | Null \<Rightarrow> Inl TypeError | Val s \<Rightarrow> fromisoformat s)"

fun break_slots :: "(string \<Rightarrow> error + pytime) \<Rightarrow> break_time list \<Rightarrow> error + interval list" where
  "break_slots fromisoformat [] = Inr []"
| "break_slots fromisoformat (b # bs) =
     try_bind (break_bound fromisoformat (br_start b))
       (\<lambda>break_start.
     try_bind (break_bound fromisoformat (br_end b))
       (\<lambda>break_end.
     try_bind (break_slots fromisoformat bs)
       (\<lambda>rest. Inr (\<lparr>iv_start = time_to_minutes break_start,
                         iv_end = time_to_minutes break_end\<rparr> # rest))))"

text \<open>Timestamps are compared as the store compares them; a date given to the store
  stands for its midnight.\<close>

definition ts_le :: "timestamp \<Rightarrow> timestamp \<Rightarrow> bool" where
  "ts_le x y =
     ((ts_date x, hour (ts_time x), minute (ts_time x), second (ts_time x))
        \<le> (ts_date y, hour (ts_time y), minute (ts_time y), second (ts_time y)))"

definition midnight :: "date \<Rightarrow> timestamp" where
  "midnight d = \<lparr>ts_date = d, ts_time = \<lparr>hour = 0, minute = 0, second = 0\<rparr>\<rparr>"

text \<open>
  Lines 121 to 140. The store renders a timestamp as \<^verbatim>\<open>YYYY-MM-DDTHH:MM:SS...\<close>; the
  code keeps the five characters after the \<^verbatim>\<open>T\<close>, the hour and the minute, whatever
  the date part is.
\<close>

definition blocked_slots :: "store \<Rightarrow> uuid \<Rightarrow> uuid \<Rightarrow> date \<Rightarrow> interval list" where
  "blocked_slots s doctor_id clinic_id target_date =
     map (\<lambda>blocked. \<lparr>iv_start = time_to_minutes (ts_time (bt_start_datetime blocked)),
                      iv_end = time_to_minutes (ts_time (bt_end_datetime blocked))\<rparr>)
       (filter (\<lambda>b. bt_clinic_id b = clinic_id
                     \<and> (bt_doctor_id b = Some doctor_id \<or> bt_doctor_id b = None)
                     \<and> ts_le (midnight target_date) (bt_start_datetime b)
                     \<and> ts_le (bt_end_datetime b) (midnight (target_date + 1)))
          (blocked_times s))"

subsection \<open>The service\<close>

text \<open>Lines 78 to 162, for a doctor who works that day: the slots, an exception, or
  no return.\<close>

definition day_slots ::
  "(string \<Rightarrow> error + int) \<Rightarrow> (string \<Rightarrow> error + pytime) \<Rightarrow> store \<Rightarrow> doctor \<Rightarrow> day_schedule \<Rightarrow> uuid \<Rightarrow> date \<Rightarrow> uuid
     \<Rightarrow> (error + pytime list) option"
where
  "day_slots py_int fromisoformat s doctor day_schedule doctor_id target_date clinic_id =
     (case working_window py_int day_schedule of
        Inl e \<Rightarrow> Some (Inl e)
      | Inr (start_time, end_time) \<Rightarrow>
          (case get_default (d_break_times doctor) [] of
             None \<Rightarrow> Some (Inl TypeError)
           | Some break_times \<Rightarrow>
               (case break_slots fromisoformat break_times of
                  Inl e \<Rightarrow> Some (Inl e)
                | Inr breaks \<Rightarrow>
                    if target_date + 1 > 3652059 then Some (Inl OverflowError)
                    else
                      (case get_default (d_slot_duration doctor) 30 of
                         None \<Rightarrow> Some (Inl TypeError)
                       | Some slot_duration \<Rightarrow>
                           slot_loop (time_to_minutes start_time) (time_to_minutes end_time)
                             slot_duration (get_default (d_buffer_time doctor) 5)
                             (booked_slots s doctor_id target_date @ breaks
                                @ blocked_slots s doctor_id clinic_id target_date)
                             []))))"

text \<open>Lines 42 to 57: the doctor is looked up by id and clinic; the first row is taken.\<close>

definition find_doctor :: "store \<Rightarrow> uuid \<Rightarrow> uuid \<Rightarrow> doctor option" where
  "find_doctor s doctor_id clinic_id =
     (case filter (\<lambda>d. d_id d = doctor_id \<and> d_clinic_id d = clinic_id) (doctors s) of
        [] \<Rightarrow> None
      | doctor # _ \<Rightarrow> Some doctor)"

definition no_slots :: "message \<Rightarrow> availability_result" where
  "no_slots m = \<lparr>available = False, slots = [], message = m\<rparr>"

definition slots_result :: "pytime list \<Rightarrow> availability_result" where
  "slots_result available_slots =
     \<lparr>available = (length available_slots > 0),
      slots = map strftime_HM available_slots,
      message = (if available_slots \<noteq> []
                 then Text (''Found '' @ str_nat (length available_slots) @ '' available slots'')
                 else Text ''No available slots'')\<rparr>"

text \<open>
  \<^verbatim>\<open>check_doctor_availability\<close>. \<open>None\<close> is a call that does not return; every
  exception ends in the handler of lines 170 to 176.
\<close>

definition check_doctor_availability ::
  "(string \<Rightarrow> error + int) \<Rightarrow> (string \<Rightarrow> error + pytime) \<Rightarrow> store \<Rightarrow> uuid \<Rightarrow> date \<Rightarrow> uuid \<Rightarrow> availability_result option"
where
  "check_doctor_availability py_int fromisoformat s doctor_id target_date clinic_id =
     (case find_doctor s doctor_id clinic_id of
        None \<Rightarrow> Some (no_slots (Text ''Doctor not found''))
      | Some doctor \<Rightarrow>
          if falsy (get_default (d_is_active doctor) True)
          then Some (no_slots (Text ''Doctor is not active''))
          else
            (case get_default (d_working_hours doctor) (\<lambda>_. Missing) of
               None \<Rightarrow> Some (no_slots (ErrorText ''Error checking availability: '' AttributeError))
             | Some working_hours \<Rightarrow>
                 (case get_default (working_hours (day_name target_date)) empty_schedule of
                    None \<Rightarrow>
                      Some (no_slots (ErrorText ''Error checking availability: '' AttributeError))
                  | Some day_schedule \<Rightarrow>
                      if falsy (get_default (ds_enabled day_schedule) False)
                      then Some (no_slots
                                   (Text (''Doctor not available on '' @ day_name target_date)))
                      else
                        (case day_slots py_int fromisoformat s doctor day_schedule doctor_id
                                target_date clinic_id of
                           None \<Rightarrow> None
                         | Some (Inl e) \<Rightarrow>
                             Some (no_slots (ErrorText ''Error checking availability: '' e))
                         | Some (Inr available_slots) \<Rightarrow>
                             Some (slots_result available_slots)))))"


section \<open>The patient service\<close>

text \<open>The store gives an inserted row an id that no row of the table has.\<close>

definition fresh_id :: "uuid list \<Rightarrow> uuid" where
  "fresh_id ids = Suc (fold max ids 0)"

text \<open>\<^verbatim>\<open>create_or_get_by_phone\<close>: the patient row, the \<^verbatim>\<open>created\<close> flag, the store
  after the call.\<close>

definition create_or_get_by_phone ::
  "store \<Rightarrow> uuid \<Rightarrow> string \<Rightarrow> string \<Rightarrow> string option \<Rightarrow> string \<Rightarrow> bool \<Rightarrow> patient \<times> bool \<times> store"
where
  "create_or_get_by_phone s clinic_id phone name email preferred_language prefers_whatsapp =
     (case filter (\<lambda>p. p_clinic_id p = clinic_id \<and> p_phone p = phone) (patients s) of
        p # _ \<Rightarrow> (p, False, s)
      | [] \<Rightarrow>
          (let patient_data =
                 \<lparr>p_id = fresh_id (map p_id (patients s)), p_clinic_id = clinic_id,
                  p_phone = phone, p_name = name, p_email = email,
                  p_preferred_language = preferred_language,
                  p_prefers_whatsapp = prefers_whatsapp\<rparr>
           in (patient_data, True, s\<lparr>patients := patients s @ [patient_data]\<rparr>)))"

section \<open>The appointment service\<close>

text \<open>\<^verbatim>\<open>AppointmentCreate\<close>; its time is written to the store with
  \<^verbatim>\<open>strftime("%H:%M:%S")\<close>, so only hour, minute and second are kept.\<close>

record appointment_create =
  ac_clinic_id :: uuid
  ac_doctor_id :: uuid
  ac_appointment_type_id :: "uuid option"
  ac_date :: date
  ac_time :: pytime
  ac_duration_minutes :: int
  ac_reason :: "string option"
  ac_patient_name :: string
  ac_patient_phone :: string

record book_result =
  b_success :: bool
  b_appointment_id :: "uuid option"
  b_message :: message

record op_result =
  r_success :: bool
  r_message :: message


definition status_str :: "status \<Rightarrow> string" where
  "status_str st =
     (case st of Scheduled \<Rightarrow> ''scheduled'' | Confirmed \<Rightarrow> ''confirmed''
      | Cancelled \<Rightarrow> ''cancelled'' | Completed \<Rightarrow> ''completed'' | NoShow \<Rightarrow> ''no_show'')"

text \<open>
  What \<^verbatim>\<open>send_appointment_confirmation\<close> does to the store: when the appointment is found
  under the clinic, its patient has a phone number and the gateway reports the message
  as sent (\<open>delivered\<close>, decided outside this program), the appointment is marked
  \<^verbatim>\<open>confirmation_sent\<close>. The cancellation and reschedule notifiers write nothing, and
  no failure of a notifier reaches the caller.
\<close>

definition send_appointment_confirmation :: "bool \<Rightarrow> store \<Rightarrow> uuid \<Rightarrow> uuid \<Rightarrow> store" where
  "send_appointment_confirmation delivered s clinic_id appointment_id =
     (case filter (\<lambda>a. a_id a = appointment_id \<and> a_clinic_id a = clinic_id) (appointments s) of
        [] \<Rightarrow> s
      | appointment # _ \<Rightarrow>
          (case filter (\<lambda>p. p_id p = a_patient_id appointment) (patients s) of
             [] \<Rightarrow> s
           | patient # _ \<Rightarrow>
               if p_phone patient \<noteq> [] \<and> delivered
               then s\<lparr>appointments :=
                        map (\<lambda>a. if a_id a = appointment_id
                                  then a\<lparr>a_confirmation_sent := True\<rparr> else a)
                          (appointments s)\<rparr>
               else s))"

text \<open>Lines 45 to 55 of \<^verbatim>\<open>book_appointment\<close>: the query for an appointment already
  holding the slot.\<close>

definition slot_taken :: "store \<Rightarrow> uuid \<Rightarrow> date \<Rightarrow> pytime \<Rightarrow> bool" where
  "slot_taken s doctor_id d t =
     (filter (\<lambda>a. a_doctor_id a = doctor_id \<and> a_date a = d \<and> a_time a = t
                   \<and> active (a_status a))
        (appointments s) \<noteq> [])"

text \<open>Lines 63 to 74: the row to insert. The store gives it its id, and the columns
  the code leaves out take the defaults of the table.\<close>

definition appointment_record :: "store \<Rightarrow> appointment_create \<Rightarrow> uuid \<Rightarrow> appointment" where
  "appointment_record s appointment_data patient_id =
     \<lparr>a_id = fresh_id (map a_id (appointments s)),
      a_clinic_id = ac_clinic_id appointment_data,
      a_doctor_id = ac_doctor_id appointment_data,
      a_patient_id = patient_id,
      a_appointment_type_id = ac_appointment_type_id appointment_data,
      a_date = ac_date appointment_data,
      a_time = ac_time appointment_data,
      a_duration_minutes = ac_duration_minutes appointment_data,
      a_reason = ac_reason appointment_data,
      a_status = Scheduled,
      a_confirmation_sent = False,
      a_reminder_sent = False,
      a_reminder_sent_at = None,
      a_cancellation_reason = None,
      a_cancelled_at = None,
      a_rescheduled_at = None\<rparr>"

text \<open>Lines 76 to 81: the insert and the id it returns.\<close>

definition insert_appointment :: "store \<Rightarrow> appointment_create \<Rightarrow> uuid \<Rightarrow> uuid \<times> store" where
  "insert_appointment s appointment_data patient_id =
     (a_id (appointment_record s appointment_data patient_id),
      s\<lparr>appointments := appointments s @ [appointment_record s appointment_data patient_id]\<rparr>)"

definition slot_conflict :: book_result where
  "slot_conflict =
     \<lparr>b_success = False, b_appointment_id = None,
      b_message = Text ''This time slot is already booked''\<rparr>"

definition booked :: "uuid \<Rightarrow> book_result" where
  "booked appointment_id =
     \<lparr>b_success = True, b_appointment_id = Some appointment_id,
      b_message = Text ''Appointment booked successfully''\<rparr>"

definition book_appointment :: "bool \<Rightarrow> store \<Rightarrow> appointment_create \<Rightarrow> book_result \<times> store" where
  "book_appointment delivered s appointment_data =
     (let (patient_result, created, s1) =
            create_or_get_by_phone s (ac_clinic_id appointment_data)
              (ac_patient_phone appointment_data) (ac_patient_name appointment_data)
              None ''en'' True;
          patient_id = p_id patient_result
      in if slot_taken s1 (ac_doctor_id appointment_data) (ac_date appointment_data)
              (ac_time appointment_data)
         then (slot_conflict, s1)
         else
           (let (appointment_id, s2) = insert_appointment s1 appointment_data patient_id;
                s3 = send_appointment_confirmation delivered s2
                       (ac_clinic_id appointment_data) appointment_id
            in (booked appointment_id, s3)))"

text \<open>The first query of \<^verbatim>\<open>cancel_appointment\<close> and of \<^verbatim>\<open>reschedule_appointment\<close>: the
  appointment is looked up by id and clinic; the first row is taken.\<close>

definition find_appointment :: "store \<Rightarrow> uuid \<Rightarrow> uuid \<Rightarrow> appointment option" where
  "find_appointment s clinic_id appointment_id =
     (case filter (\<lambda>a. a_id a = appointment_id \<and> a_clinic_id a = clinic_id) (appointments s) of
        [] \<Rightarrow> None
      | appointment # _ \<Rightarrow> Some appointment)"

definition cancel_appointment ::
  "timestamp \<Rightarrow> store \<Rightarrow> uuid \<Rightarrow> uuid \<Rightarrow> string option \<Rightarrow> op_result \<times> store"
where
  "cancel_appointment now s clinic_id appointment_id cancellation_reason =
     (case find_appointment s clinic_id appointment_id of
        None \<Rightarrow> (\<lparr>r_success = False, r_message = Text ''Appointment not found''\<rparr>, s)
      | Some appointment \<Rightarrow>
          (let current_status = a_status appointment
           in if current_status \<in> set [Cancelled, Completed, NoShow]
              then (\<lparr>r_success = False,
                     r_message = Text (''Cannot cancel appointment with status: ''
                                         @ status_str current_status)\<rparr>, s)
              else (\<lparr>r_success = True, r_message = Text ''Appointment cancelled successfully''\<rparr>,
                    s\<lparr>appointments :=
                        map (\<lambda>a. if a_id a = appointment_id
                                  then a\<lparr>a_status := Cancelled,
                                         a_cancellation_reason := cancellation_reason,
                                         a_cancelled_at := Some now\<rparr>
                                  else a)
                          (appointments s)\<rparr>)))"

definition reschedule_appointment ::
  "timestamp \<Rightarrow> store \<Rightarrow> uuid \<Rightarrow> uuid \<Rightarrow> date \<Rightarrow> pytime \<Rightarrow> op_result \<times> store"
where
  "reschedule_appointment now s clinic_id appointment_id new_date new_time =
     (case find_appointment s clinic_id appointment_id of
        None \<Rightarrow> (\<lparr>r_success = False, r_message = Text ''Appointment not found''\<rparr>, s)
      | Some appointment \<Rightarrow>
          (let doctor_id = a_doctor_id appointment;
               current_status = a_status appointment
           in if current_status \<in> set [Cancelled, Completed, NoShow]
              then (\<lparr>r_success = False,
                     r_message = Text (''Cannot reschedule appointment with status: ''
                                         @ status_str current_status)\<rparr>, s)
              else if filter (\<lambda>a. a_doctor_id a = doctor_id \<and> a_date a = new_date
                                   \<and> a_time a = new_time \<and> active (a_status a)
                                   \<and> a_id a \<noteq> appointment_id)
                        (appointments s) \<noteq> []
              then (\<lparr>r_success = False,
                     r_message = Text ''The new time slot is already booked''\<rparr>, s)
              else (\<lparr>r_success = True,
                     r_message = Text ''Appointment rescheduled successfully''\<rparr>,
                    s\<lparr>appointments :=
                        map (\<lambda>a. if a_id a = appointment_id
                                  then a\<lparr>a_date := new_date,
                                         a_time := new_time,
                                         a_rescheduled_at := Some now,
                                         a_reminder_sent := False,
                                         a_reminder_sent_at := None\<rparr>
                                  else a)
                          (appointments s)\<rparr>)))"


subsection \<open>Book calls in flight\<close>

text \<open>
  A \<^verbatim>\<open>book_appointment\<close> call reaches the store three times: the patient upsert, the
  query for the slot, the insert with its confirmation. Calls served by different
  worker processes share nothing but the store, so between two of these accesses
  another call may reach the store. A call in flight is at one of these points.
\<close>

datatype book_pc = Started | Upserted uuid | Checked uuid | Finished book_result

fun book_step :: "bool \<Rightarrow> appointment_create \<Rightarrow> book_pc \<Rightarrow> store \<Rightarrow> book_pc \<times> store" where
  "book_step delivered appointment_data Started s =
     (let (patient_result, created, s1) =
            create_or_get_by_phone s (ac_clinic_id appointment_data)
              (ac_patient_phone appointment_data) (ac_patient_name appointment_data)
              None ''en'' True
      in (Upserted (p_id patient_result), s1))"
| "book_step delivered appointment_data (Upserted patient_id) s =
     (if slot_taken s (ac_doctor_id appointment_data) (ac_date appointment_data)
           (ac_time appointment_data)
      then (Finished slot_conflict, s)
      else (Checked patient_id, s))"
| "book_step delivered appointment_data (Checked patient_id) s =
     (let (appointment_id, s2) = insert_appointment s appointment_data patient_id;
          s3 = send_appointment_confirmation delivered s2
                 (ac_clinic_id appointment_data) appointment_id
      in (Finished (booked appointment_id), s3))"
| "book_step delivered appointment_data (Finished r) s = (Finished r, s)"

text \<open>Two calls and a schedule: \<open>True\<close> lets the first call take its next step,
  \<open>False\<close> the second.\<close>

fun interleave ::
  "bool list \<Rightarrow> bool \<Rightarrow> appointment_create \<Rightarrow> appointment_create
     \<Rightarrow> book_pc \<times> book_pc \<times> store \<Rightarrow> book_pc \<times> book_pc \<times> store"
where
  "interleave [] delivered data1 data2 cfg = cfg"
| "interleave (True # sched) delivered data1 data2 (pc1, pc2, s) =
     (let (pc1', s') = book_step delivered data1 pc1 s
      in interleave sched delivered data1 data2 (pc1', pc2, s'))"
| "interleave (False # sched) delivered data1 data2 (pc1, pc2, s) =
     (let (pc2', s') = book_step delivered data2 pc2 s
      in interleave sched delivered data1 data2 (pc1, pc2', s'))"

text \<open>The appointments holding a slot.\<close>

definition holding :: "store \<Rightarrow> uuid \<Rightarrow> date \<Rightarrow> pytime \<Rightarrow> appointment list" where
  "holding s doctor_id d t =
     filter (\<lambda>a. a_doctor_id a = doctor_id \<and> a_date a = d \<and> a_time a = t \<and> active (a_status a))
       (appointments s)"


section \<open>Notions used in the statements\<close>

text \<open>
  The wording of the specification for a blocked time that concerns a date: its range
  from start to end, the end excluded, meets the day from \<open>d\<close> 00:00 to \<open>d + 1\<close> 00:00.
\<close>

definition intersects_day :: "blocked_time \<Rightarrow> date \<Rightarrow> bool" where
  "intersects_day b d =
     (\<not> ts_le (midnight (d + 1)) (bt_start_datetime b) \<and> \<not> ts_le (bt_end_datetime b) (midnight d))"

text \<open>What the slot walk guarantees of the times it returns: each was there before, or
  is the time of a cursor whose slot met no occupied interval.\<close>

definition unconflicted :: "int \<Rightarrow> interval list \<Rightarrow> pytime list \<Rightarrow> pytime list \<Rightarrow> bool" where
  "unconflicted dur occ acc ts =
     (\<forall>t\<in>set ts. t \<in> set acc
        \<or> (\<exists>c. minutes_to_time c = Inr t \<and> \<not> conflicts c (c + dur) occ))"

text \<open>
  The format the specification gives for a time of day, 24-hour \<^verbatim>\<open>HH:MM\<close>: two digits, a
  colon, two digits, the hour at most 23 and the minute at most 59.
\<close>

definition hh_mm :: "string \<Rightarrow> bool" where
  "hh_mm s =
     (case s of
        [h1, h2, c, m1, m2] \<Rightarrow>
          is_digit h1 \<and> is_digit h2 \<and> c = CHR '':'' \<and> is_digit m1 \<and> is_digit m2
          \<and> 10 * digit_val h1 + digit_val h2 \<le> 23
          \<and> 10 * digit_val m1 + digit_val m2 \<le> 59
      | _ \<Rightarrow> False)"

text \<open>
  A working-hours string that can be read as a time of day: it has one colon, the text
  before it and the text after it are integers for \<^verbatim>\<open>int\<close>, the first from 0 to 23 and
  the second from 0 to 59.
\<close>

definition before_colon :: "string \<Rightarrow> string" where
  "before_colon s = takeWhile (\<lambda>c. c \<noteq> CHR '':'') s"

definition after_colon :: "string \<Rightarrow> string" where
  "after_colon s = tl (dropWhile (\<lambda>c. c \<noteq> CHR '':'') s)"

definition readable_time :: "(string \<Rightarrow> error + int) \<Rightarrow> string \<Rightarrow> bool" where
  "readable_time py_int s =
     (count_list s CHR '':'' = 1
      \<and> (case py_int (before_colon s) of
            Inl e \<Rightarrow> False
          | Inr h \<Rightarrow>
              (case py_int (after_colon s) of
                 Inl e \<Rightarrow> False
               | Inr m \<Rightarrow> 0 \<le> h \<and> h \<le> 23 \<and> 0 \<le> m \<and> m \<le> 59)))"





section \<open>Example data\<close>

definition nine_to_five :: day_schedule where
  "nine_to_five = \<lparr>ds_enabled = Val True, ds_start = Val ''09:00'', ds_end = Val ''17:00''\<rparr>"

definition weekdays :: "day_schedule \<Rightarrow> string \<Rightarrow> day_schedule field" where
  "weekdays ds d =
     (if d \<in> set [''monday'', ''tuesday'', ''wednesday'', ''thursday'', ''friday'']
      then Val ds else Missing)"

definition ex_doctor :: "uuid \<Rightarrow> uuid \<Rightarrow> day_schedule \<Rightarrow> int \<Rightarrow> int \<Rightarrow> doctor" where
  "ex_doctor i c ds dur buf =
     \<lparr>d_id = i, d_clinic_id = c, d_is_active = Val True, d_working_hours = Val (weekdays ds),
      d_slot_duration = Val dur, d_buffer_time = Val buf, d_break_times = Val []\<rparr>"

definition ex_appointment :: "uuid \<Rightarrow> uuid \<Rightarrow> uuid \<Rightarrow> date \<Rightarrow> int \<Rightarrow> int \<Rightarrow> status \<Rightarrow> appointment" where
  "ex_appointment i c doc d h m st =
     \<lparr>a_id = i, a_clinic_id = c, a_doctor_id = doc, a_patient_id = 1,
      a_appointment_type_id = None, a_date = d,
      a_time = \<lparr>hour = h, minute = m, second = 0\<rparr>, a_duration_minutes = 30,
      a_reason = None, a_status = st, a_confirmation_sent = True, a_reminder_sent = True,
      a_reminder_sent_at = None, a_cancellation_reason = None, a_cancelled_at = None,
      a_rescheduled_at = None\<rparr>"

definition ex_store :: "doctor list \<Rightarrow> appointment list \<Rightarrow> store" where
  "ex_store ds as = \<lparr>doctors = ds, appointments = as, patients = [], blocked_times = []\<rparr>"

text \<open>2026-01-12, a Monday.\<close>

definition monday :: date where
  "monday = 739628"

definition ex_now :: timestamp where
  "ex_now = \<lparr>ts_date = 739620, ts_time = \<lparr>hour = 8, minute = 15, second = 0\<rparr>\<rparr>"

definition no_iso :: "string \<Rightarrow> error + pytime" where
  "no_iso s = Inl ValueError"

definition thirteen_slots :: "pytime list" where
  "thirteen_slots =
     [\<lparr>hour = 9, minute = 0, second = 0\<rparr>, \<lparr>hour = 9, minute = 35, second = 0\<rparr>,
      \<lparr>hour = 10, minute = 10, second = 0\<rparr>, \<lparr>hour = 10, minute = 45, second = 0\<rparr>,
      \<lparr>hour = 11, minute = 20, second = 0\<rparr>, \<lparr>hour = 11, minute = 55, second = 0\<rparr>,
      \<lparr>hour = 12, minute = 30, second = 0\<rparr>, \<lparr>hour = 13, minute = 5, second = 0\<rparr>,
      \<lparr>hour = 13, minute = 40, second = 0\<rparr>, \<lparr>hour = 14, minute = 15, second = 0\<rparr>,
      \<lparr>hour = 14, minute = 50, second = 0\<rparr>, \<lparr>hour = 15, minute = 25, second = 0\<rparr>,
      \<lparr>hour = 16, minute = 0, second = 0\<rparr>]"

definition inactive_doctor :: doctor where
  "inactive_doctor = (ex_doctor 1 1 nine_to_five 30 5)\<lparr>d_is_active := Val False, d_working_hours := Null\<rparr>"


definition two_appointments :: store where
  "two_appointments =
     ex_store [] [ex_appointment 1 1 1 monday 10 0 Cancelled,
                  ex_appointment 2 1 1 monday 11 0 Confirmed]"

definition ex_booking :: "uuid \<Rightarrow> string \<Rightarrow> string \<Rightarrow> appointment_create" where
  "ex_booking c name phone =
     \<lparr>ac_clinic_id = c, ac_doctor_id = 1, ac_appointment_type_id = None, ac_date = monday,
      ac_time = \<lparr>hour = 10, minute = 0, second = 0\<rparr>, ac_duration_minutes = 30,
      ac_reason = None, ac_patient_name = name, ac_patient_phone = phone\<rparr>"

definition ten :: pytime where
  "ten = \<lparr>hour = 10, minute = 0, second = 0\<rparr>"


definition ex_patient :: "uuid \<Rightarrow> uuid \<Rightarrow> string \<Rightarrow> string \<Rightarrow> patient" where
  "ex_patient i c name phone =
     \<lparr>p_id = i, p_clinic_id = c, p_phone = phone, p_name = name, p_email = None,
      p_preferred_language = ''en'', p_prefers_whatsapp = True\<rparr>"

definition taken_at_ten :: store where
  "taken_at_ten = ex_store [] [ex_appointment 1 1 1 monday 10 0 Scheduled]"



definition nine_to_eleven :: day_schedule where
  "nine_to_eleven = \<lparr>ds_enabled = Val True, ds_start = Val ''09:00'', ds_end = Val ''11:00''\<rparr>"

definition ex_block :: "date \<Rightarrow> int \<Rightarrow> int \<Rightarrow> date \<Rightarrow> int \<Rightarrow> int \<Rightarrow> blocked_time" where
  "ex_block d1 h1 m1 d2 h2 m2 =
     \<lparr>bt_clinic_id = 1, bt_doctor_id = None,
      bt_start_datetime = \<lparr>ts_date = d1, ts_time = \<lparr>hour = h1, minute = m1, second = 0\<rparr>\<rparr>,
      bt_end_datetime = \<lparr>ts_date = d2, ts_time = \<lparr>hour = h2, minute = m2, second = 0\<rparr>\<rparr>\<rparr>"

definition blocked_store :: "blocked_time \<Rightarrow> store" where
  "blocked_store b =
     \<lparr>doctors = [ex_doctor 1 1 nine_to_eleven 30 0], appointments = [], patients = [],
      blocked_times = [b]\<rparr>"

definition booked_at_ten :: "int \<Rightarrow> store" where
  "booked_at_ten buf =
     ex_store [ex_doctor 1 1 nine_to_five 30 buf] [ex_appointment 1 1 1 monday 10 0 Scheduled]"



definition returning_caller :: store where
  "returning_caller =
     (ex_store [] [])\<lparr>patients := [ex_patient 2 2 ''Zed'' ''111'', ex_patient 7 1 ''Ada'' ''111'']\<rparr>"

section \<open>Evaluation lemmas\<close>

lemmas parse_defs =
  parse_time_str_def get_default_def parse_hour_min_def ascii_int_def Let_def strip_def is_space_def
  is_digit_def digits_value_def digit_val_def py_time_def c_int_def

lemma nine_to_five_window:
  "working_window ascii_int nine_to_five
     = Inr (\<lparr>hour = 9, minute = 0, second = 0\<rparr>, \<lparr>hour = 17, minute = 0, second = 0\<rparr>)"
  by (simp add: working_window_def nine_to_five_def parse_defs)

lemma thirteen_loop: "slot_loop 540 1020 30 (Some 5) [] [] = Some (Inr thirteen_slots)"
  by (simp add: slot_loop.simps conflicts_def minutes_to_time_def py_time_def c_int_def thirteen_slots_def)

lemma thirteen_day:
  "day_slots ascii_int no_iso (ex_store [ex_doctor 1 1 nine_to_five 30 5] []) (ex_doctor 1 1 nine_to_five 30 5)
      nine_to_five 1 monday 1 = Some (Inr thirteen_slots)"
  by (simp add: day_slots_def nine_to_five_window ex_doctor_def get_default_def ex_store_def
      booked_slots_def blocked_slots_def time_to_minutes_def monday_def thirteen_loop)

section \<open>Lookups and updates\<close>

lemma find_appointment_Some:
  "find_appointment s c i = Some a \<Longrightarrow> a \<in> set (appointments s) \<and> a_id a = i \<and> a_clinic_id a = c"
proof -
  assume h: "find_appointment s c i = Some a"
  then obtain rest where "filter (\<lambda>a. a_id a = i \<and> a_clinic_id a = c) (appointments s) = a # rest"
    by (auto simp: find_appointment_def split: list.splits)
  then have "a \<in> set (filter (\<lambda>a. a_id a = i \<and> a_clinic_id a = c) (appointments s))" by simp
  then show ?thesis by simp
qed

lemma find_appointment_map:
  assumes "\<And>a. a_id (f a) = a_id a" "\<And>a. a_clinic_id (f a) = a_clinic_id a"
  shows "find_appointment (s\<lparr>appointments := map f (appointments s)\<rparr>) c i
           = map_option f (find_appointment s c i)"
proof -
  have "filter (\<lambda>a. a_id a = i \<and> a_clinic_id a = c) (map f (appointments s))
        = map f (filter (\<lambda>a. a_id a = i \<and> a_clinic_id a = c) (appointments s))"
    by (simp add: filter_map o_def assms)
  then show ?thesis
    by (simp add: find_appointment_def split: list.splits)
qed

lemma not_active_iff: "\<not> active st \<longleftrightarrow> st \<in> set [Cancelled, Completed, NoShow]"
  by (cases st) (simp_all add: active_def)

section \<open>Facts about booking\<close>

lemma fold_max_start: "a \<le> fold max ids (a::nat)"
proof (induction ids arbitrary: a)
  case Nil
  show ?case by simp
next
  case (Cons y ys)
  have "a \<le> max y a" by simp
  also have "max y a \<le> fold max ys (max y a)" by (rule Cons.IH)
  finally show ?case by simp
qed

lemma fold_max_ge: "x \<in> set ids \<Longrightarrow> x \<le> fold max ids (a::nat)"
proof (induction ids arbitrary: a)
  case Nil
  then show ?case by simp
next
  case (Cons y ys)
  show ?case
  proof (cases "x = y")
    case True
    have "y \<le> max y a" by simp
    also have "max y a \<le> fold max ys (max y a)" by (rule fold_max_start)
    finally show ?thesis using True by simp
  next
    case False
    with Cons.prems have "x \<in> set ys" by simp
    then show ?thesis using Cons.IH by simp
  qed
qed

lemma fresh_id_new: "fresh_id ids \<notin> set ids"
proof
  assume "fresh_id ids \<in> set ids"
  then have "fresh_id ids \<le> fold max ids 0" by (rule fold_max_ge)
  then show False by (simp add: fresh_id_def)
qed

lemma upsert_appointments:
  "create_or_get_by_phone s c ph n e l w = (p, created, s1) \<Longrightarrow>
     appointments s1 = appointments s \<and> doctors s1 = doctors s \<and> blocked_times s1 = blocked_times s"
  by (auto simp: create_or_get_by_phone_def Let_def split: list.splits)

lemma upsert_patient:
  "create_or_get_by_phone s c ph n e l w = (p, created, s1) \<Longrightarrow>
     p \<in> set (patients s1) \<and> p_clinic_id p = c \<and> p_phone p = ph
     \<and> (if created then patients s1 = patients s @ [p] else s1 = s)
     \<and> (created \<longleftrightarrow> \<not> (\<exists>q\<in>set (patients s). p_clinic_id q = c \<and> p_phone q = ph))"
proof -
  assume h: "create_or_get_by_phone s c ph n e l w = (p, created, s1)"
  show ?thesis
  proof (cases "filter (\<lambda>p. p_clinic_id p = c \<and> p_phone p = ph) (patients s)")
    case Nil
    then have "\<not> (\<exists>q\<in>set (patients s). p_clinic_id q = c \<and> p_phone q = ph)"
      by (simp add: filter_empty_conv)
    with h Nil show ?thesis
      by (auto simp: create_or_get_by_phone_def Let_def)
  next
    case (Cons q qs)
    then have "q \<in> set (filter (\<lambda>p. p_clinic_id p = c \<and> p_phone p = ph) (patients s))" by simp
    then have "q \<in> set (patients s) \<and> p_clinic_id q = c \<and> p_phone q = ph" by simp
    with h Cons show ?thesis
      by (auto simp: create_or_get_by_phone_def)
  qed
qed

lemma slot_taken_upsert:
  "create_or_get_by_phone s c ph n e l w = (p, created, s1) \<Longrightarrow> slot_taken s1 d dt t = slot_taken s d dt t"
  by (simp add: slot_taken_def upsert_appointments)

lemma confirmation_tables:
  "patients (send_appointment_confirmation dl s c i) = patients s
   \<and> doctors (send_appointment_confirmation dl s c i) = doctors s
   \<and> blocked_times (send_appointment_confirmation dl s c i) = blocked_times s"
  by (simp add: send_appointment_confirmation_def split: list.splits)

lemma confirmation_cases:
  "send_appointment_confirmation dl s c i = s
   \<or> send_appointment_confirmation dl s c i
       = s\<lparr>appointments := map (\<lambda>a. if a_id a = i then a\<lparr>a_confirmation_sent := True\<rparr> else a)
                               (appointments s)\<rparr>"
  by (simp add: send_appointment_confirmation_def split: list.splits)

lemma confirmation_appointments:
  "\<exists>flag. appointments (send_appointment_confirmation dl s c i)
     = map (\<lambda>a. if a_id a = i then a\<lparr>a_confirmation_sent := a_confirmation_sent a \<or> flag\<rparr> else a) (appointments s)"
proof -
  have "send_appointment_confirmation dl s c i = s
   \<or> send_appointment_confirmation dl s c i
       = s\<lparr>appointments := map (\<lambda>a. if a_id a = i then a\<lparr>a_confirmation_sent := True\<rparr> else a)
                               (appointments s)\<rparr>"
    by (rule confirmation_cases)
  then show ?thesis
  proof
    assume same: "send_appointment_confirmation dl s c i = s"
    have "map (\<lambda>a. if a_id a = i then a\<lparr>a_confirmation_sent := a_confirmation_sent a \<or> False\<rparr> else a) (appointments s) = appointments s"
      by (simp add: map_idI)
    then have "appointments (send_appointment_confirmation dl s c i)
      = map (\<lambda>a. if a_id a = i then a\<lparr>a_confirmation_sent := a_confirmation_sent a \<or> False\<rparr> else a) (appointments s)"
      using same by simp
    then show ?thesis by (rule exI)
  next
    assume "send_appointment_confirmation dl s c i
       = s\<lparr>appointments := map (\<lambda>a. if a_id a = i then a\<lparr>a_confirmation_sent := True\<rparr> else a)
                               (appointments s)\<rparr>"
    then have "appointments (send_appointment_confirmation dl s c i)
       = map (\<lambda>a. if a_id a = i then a\<lparr>a_confirmation_sent := a_confirmation_sent a \<or> True\<rparr> else a) (appointments s)"
      by simp
    then show ?thesis by (rule exI)
  qed
qed

lemma insert_and_confirm:
  assumes "insert_appointment s1 d pid = (i, s2)"
  shows "\<exists>row. appointments (send_appointment_confirmation dl s2 c i) = appointments s1 @ [row]
           \<and> a_id row = i \<and> i \<notin> set (map a_id (appointments s1))
           \<and> a_status row = Scheduled \<and> a_patient_id row = pid
           \<and> a_clinic_id row = ac_clinic_id d \<and> a_doctor_id row = ac_doctor_id d
           \<and> a_date row = ac_date d \<and> a_time row = ac_time d
           \<and> a_duration_minutes row = ac_duration_minutes d \<and> a_reason row = ac_reason d
           \<and> patients (send_appointment_confirmation dl s2 c i) = patients s1
           \<and> doctors (send_appointment_confirmation dl s2 c i) = doctors s1
           \<and> blocked_times (send_appointment_confirmation dl s2 c i) = blocked_times s1"
proof -
  let ?row0 = "appointment_record s1 d pid"
  have i: "i = a_id ?row0" and s2: "s2 = s1\<lparr>appointments := appointments s1 @ [?row0]\<rparr>"
    using assms by (simp_all add: insert_appointment_def)
  have new: "i \<notin> set (map a_id (appointments s1))"
    using fresh_id_new[of "map a_id (appointments s1)"] by (simp add: i appointment_record_def)
  obtain flag where fl: "appointments (send_appointment_confirmation dl s2 c i)
     = map (\<lambda>a. if a_id a = i then a\<lparr>a_confirmation_sent := a_confirmation_sent a \<or> flag\<rparr> else a) (appointments s2)"
    using confirmation_appointments by blast
  have same: "map (\<lambda>a. if a_id a = i then a\<lparr>a_confirmation_sent := a_confirmation_sent a \<or> flag\<rparr> else a) (appointments s1) = appointments s1"
    using new by (intro map_idI) auto
  let ?row = "?row0\<lparr>a_confirmation_sent := a_confirmation_sent ?row0 \<or> flag\<rparr>"
  have app: "appointments (send_appointment_confirmation dl s2 c i) = appointments s1 @ [?row]"
    using fl same by (simp add: s2 i)
  have fields: "a_id ?row = i" "a_status ?row = Scheduled" "a_patient_id ?row = pid"
      "a_clinic_id ?row = ac_clinic_id d" "a_doctor_id ?row = ac_doctor_id d"
      "a_date ?row = ac_date d" "a_time ?row = ac_time d"
      "a_duration_minutes ?row = ac_duration_minutes d" "a_reason ?row = ac_reason d"
    by (simp_all add: i appointment_record_def)
  have tabs: "patients (send_appointment_confirmation dl s2 c i) = patients s1"
      "doctors (send_appointment_confirmation dl s2 c i) = doctors s1"
      "blocked_times (send_appointment_confirmation dl s2 c i) = blocked_times s1"
    using confirmation_tables[of dl s2 c i] by (simp_all add: s2)
  show ?thesis
    using app fields new tabs by blast
qed



lemma book_appointment_unfold:
  assumes "create_or_get_by_phone s (ac_clinic_id d) (ac_patient_phone d) (ac_patient_name d)
             None ''en'' True = (p, created, s1)"
  shows "book_appointment dl s d =
           (if slot_taken s (ac_doctor_id d) (ac_date d) (ac_time d) then (slot_conflict, s1)
            else (booked (fst (insert_appointment s1 d (p_id p))),
                  send_appointment_confirmation dl (snd (insert_appointment s1 d (p_id p)))
                    (ac_clinic_id d) (fst (insert_appointment s1 d (p_id p)))))"
  using assms slot_taken_upsert [OF assms]
  by (simp add: book_appointment_def Let_def split_beta)

lemma book_step_thrice:
  "book_step dl d (fst (book_step dl d (fst (book_step dl d Started s)) (snd (book_step dl d Started s))))
      (snd (book_step dl d (fst (book_step dl d Started s)) (snd (book_step dl d Started s))))
    = (Finished (fst (book_appointment dl s d)), snd (book_appointment dl s d))"
  by (simp add: book_appointment_def Let_def split_beta)

lemma book_free:
  assumes up: "create_or_get_by_phone s (ac_clinic_id d) (ac_patient_phone d) (ac_patient_name d)
             None ''en'' True = (p, created, s1)"
      and free: "\<not> slot_taken s (ac_doctor_id d) (ac_date d) (ac_time d)"
  shows "\<exists>row. fst (book_appointment dl s d) = booked (a_id row)
          \<and> appointments (snd (book_appointment dl s d)) = appointments s @ [row]
          \<and> a_id row \<notin> set (map a_id (appointments s))
          \<and> a_status row = Scheduled \<and> a_patient_id row = p_id p
          \<and> a_clinic_id row = ac_clinic_id d \<and> a_doctor_id row = ac_doctor_id d
          \<and> a_date row = ac_date d \<and> a_time row = ac_time d
          \<and> a_duration_minutes row = ac_duration_minutes d \<and> a_reason row = ac_reason d
          \<and> patients (snd (book_appointment dl s d)) = patients s1
          \<and> doctors (snd (book_appointment dl s d)) = doctors s
          \<and> blocked_times (snd (book_appointment dl s d)) = blocked_times s"
proof -
  obtain i s2 where ins: "insert_appointment s1 d (p_id p) = (i, s2)"
    by (cases "insert_appointment s1 d (p_id p)")
  have b: "book_appointment dl s d = (booked i, send_appointment_confirmation dl s2 (ac_clinic_id d) i)"
    using book_appointment_unfold [OF up, of dl] free ins by simp
  have same: "appointments s1 = appointments s" "doctors s1 = doctors s" "blocked_times s1 = blocked_times s"
    using upsert_appointments [OF up] by simp_all
  from insert_and_confirm [OF ins, of dl "ac_clinic_id d"]
  obtain row where row:
      "appointments (send_appointment_confirmation dl s2 (ac_clinic_id d) i) = appointments s1 @ [row]"
      "a_id row = i" "i \<notin> set (map a_id (appointments s1))"
      "a_status row = Scheduled" "a_patient_id row = p_id p"
      "a_clinic_id row = ac_clinic_id d" "a_doctor_id row = ac_doctor_id d"
      "a_date row = ac_date d" "a_time row = ac_time d"
      "a_duration_minutes row = ac_duration_minutes d" "a_reason row = ac_reason d"
      "patients (send_appointment_confirmation dl s2 (ac_clinic_id d) i) = patients s1"
      "doctors (send_appointment_confirmation dl s2 (ac_clinic_id d) i) = doctors s1"
      "blocked_times (send_appointment_confirmation dl s2 (ac_clinic_id d) i) = blocked_times s1"
    by blast
  have "fst (book_appointment dl s d) = booked (a_id row)"
    using b row(2) by simp
  moreover have "snd (book_appointment dl s d) = send_appointment_confirmation dl s2 (ac_clinic_id d) i"
    using b by simp
  ultimately show ?thesis
    using row same by (intro exI[of _ row]) simp
qed

lemma holding_append:
  "appointments s' = appointments s @ [row] \<Longrightarrow>
   holding s' dr dt tm = holding s dr dt tm
      @ (if a_doctor_id row = dr \<and> a_date row = dt \<and> a_time row = tm \<and> active (a_status row)
         then [row] else [])"
  by (simp add: holding_def)

lemma slot_taken_holding: "slot_taken s dr dt tm \<longleftrightarrow> holding s dr dt tm \<noteq> []"
  by (simp add: slot_taken_def holding_def)

lemma book_taken:
  assumes "slot_taken s (ac_doctor_id d) (ac_date d) (ac_time d)"
  shows "fst (book_appointment dl s d) = slot_conflict
         \<and> appointments (snd (book_appointment dl s d)) = appointments s
         \<and> doctors (snd (book_appointment dl s d)) = doctors s
         \<and> blocked_times (snd (book_appointment dl s d)) = blocked_times s"
proof -
  obtain p created s1 where up:
    "create_or_get_by_phone s (ac_clinic_id d) (ac_patient_phone d) (ac_patient_name d)
             None ''en'' True = (p, created, s1)"
    by (metis prod_cases3)
  show ?thesis
    using book_appointment_unfold [OF up, of dl] assms upsert_appointments [OF up] by simp
qed

lemma interleave_first:
  "interleave (True # sched) dl d1 d2 (pc1, pc2, s)
     = interleave sched dl d1 d2 (fst (book_step dl d1 pc1 s), pc2, snd (book_step dl d1 pc1 s))"
  by (simp add: split_beta del: book_step.simps)

lemma interleave_second:
  "interleave (False # sched) dl d1 d2 (pc1, pc2, s)
     = interleave sched dl d1 d2 (pc1, fst (book_step dl d2 pc2 s), snd (book_step dl d2 pc2 s))"
  by (simp add: split_beta del: book_step.simps)

lemma book_keeps_single_holder:
  assumes inv: "\<forall>dr dt tm. length (holding s dr dt tm) \<le> 1"
  shows "length (holding (snd (book_appointment dl s d)) dr dt tm) \<le> 1"
proof (cases "slot_taken s (ac_doctor_id d) (ac_date d) (ac_time d)")
  case True
  from book_taken [OF True, of dl]
  have "appointments (snd (book_appointment dl s d)) = appointments s" by simp
  then have "holding (snd (book_appointment dl s d)) dr dt tm = holding s dr dt tm"
    by (simp add: holding_def)
  with inv show ?thesis by simp
next
  case False
  obtain p created s1 where up:
    "create_or_get_by_phone s (ac_clinic_id d) (ac_patient_phone d) (ac_patient_name d)
             None ''en'' True = (p, created, s1)"
    by (metis prod_cases3)
  from book_free [OF up False, of dl]
  obtain row where row:
      "appointments (snd (book_appointment dl s d)) = appointments s @ [row]"
      "a_doctor_id row = ac_doctor_id d" "a_date row = ac_date d" "a_time row = ac_time d"
    by blast
  have free: "holding s (ac_doctor_id d) (ac_date d) (ac_time d) = []"
    using False slot_taken_holding by simp
  show ?thesis
  proof (cases "a_doctor_id row = dr \<and> a_date row = dt \<and> a_time row = tm")
    case True
    then have "holding s dr dt tm = []" using free row(2-4) by simp
    then show ?thesis using holding_append [OF row(1), of dr dt tm] by simp
  next
    case False
    then have "holding (snd (book_appointment dl s d)) dr dt tm = holding s dr dt tm"
      using holding_append [OF row(1), of dr dt tm] by auto
    with inv show ?thesis by simp
  qed
qed


lemmas book_defs =
  book_appointment_def create_or_get_by_phone_def slot_taken_def insert_appointment_def
  appointment_record_def send_appointment_confirmation_def fresh_id_def ex_store_def
  ex_booking_def ex_appointment_def ex_patient_def active_def monday_def slot_conflict_def
  booked_def holding_def ten_def Let_def

section \<open>Facts about clinics\<close>









section \<open>Facts about the slot walk\<close>

lemma minutes_to_time_Inr:
  "minutes_to_time c = Inr t \<Longrightarrow>
     0 \<le> c \<and> c < 1440 \<and> hour t = c div 60 \<and> minute t = c mod 60 \<and> time_to_minutes t = c"
  by (auto simp: minutes_to_time_def py_time_def c_int_def time_to_minutes_def split: if_splits)

lemma minutes_to_time_ok:
  "0 \<le> c \<Longrightarrow> c < 1440 \<Longrightarrow> \<exists>t. minutes_to_time c = Inr t"
  by (simp add: minutes_to_time_def py_time_def c_int_def) presburger

lemma slot_loop_sound:
  assumes "slot_loop cur e dur buf occ acc = Some r"
  shows "\<forall>ts. r = Inr ts \<longrightarrow> unconflicted dur occ acc ts"
proof (rule slot_loop.raw_induct
        [where P = "\<lambda>cur e dur buf occ acc r. \<forall>ts. r = Inr ts \<longrightarrow> unconflicted dur occ acc ts",
         OF _ assms])
  fix f cur e dur buf occ acc r
  assume IH: "\<And>cur e dur buf occ acc r. f cur e dur buf occ acc = Some r
                \<Longrightarrow> \<forall>ts. r = Inr ts \<longrightarrow> unconflicted dur occ acc ts"
    and body: "(if cur + dur \<le> e then
        (if conflicts cur (cur + dur) occ then
           (case buf of
              None \<Rightarrow> Some (Inl TypeError)
            | Some b \<Rightarrow> f (cur + (dur + b)) e dur buf occ acc)
         else
           (case minutes_to_time cur of
              Inl e \<Rightarrow> Some (Inl e)
            | Inr t \<Rightarrow>
                (case buf of
                   None \<Rightarrow> Some (Inl TypeError)
                 | Some b \<Rightarrow> f (cur + (dur + b)) e dur buf occ (acc @ [t]))))
      else Some (Inr acc)) = Some r"
  show "\<forall>ts. r = Inr ts \<longrightarrow> unconflicted dur occ acc ts"
  proof (cases "cur + dur \<le> e")
    case False
    with body have "r = Inr acc" by simp
    then show ?thesis by (simp add: unconflicted_def)
  next
    case True
    show ?thesis
    proof (cases "conflicts cur (cur + dur) occ")
      case c: True
      show ?thesis
      proof (cases buf)
        case None
        with body True c have "r = Inl TypeError" by simp
        then show ?thesis by simp
      next
        case (Some b)
        with body True c have "f (cur + (dur + b)) e dur buf occ acc = Some r" by simp
        then show ?thesis by (rule IH)
      qed
    next
      case c: False
      show ?thesis
      proof (cases "minutes_to_time cur")
        case (Inl err)
        with body True c have "r = Inl err" by simp
        then show ?thesis by simp
      next
        case (Inr t0)
        show ?thesis
        proof (cases buf)
          case None
          with body True c Inr have "r = Inl TypeError" by simp
          then show ?thesis by simp
        next
          case (Some b)
          with body True c Inr
          have "f (cur + (dur + b)) e dur buf occ (acc @ [t0]) = Some r" by simp
          then have "\<forall>ts. r = Inr ts \<longrightarrow> unconflicted dur occ (acc @ [t0]) ts"
            by (rule IH)
          then show ?thesis using Inr c unfolding unconflicted_def by fastforce
        qed
      qed
    qed
  qed
qed


lemma digit_char_code: "n < 10 \<Longrightarrow> (of_char (digit_char n) :: nat) = 48 + n"
proof -
  assume "n < 10"
  then consider "n = 0" | "n = 1" | "n = 2" | "n = 3" | "n = 4" | "n = 5" | "n = 6" | "n = 7"
    | "n = 8" | "n = 9"
    by atomize_elim arith
  then show ?thesis
    by cases (simp_all add: digit_char_def)
qed

lemma digit_char_inj: "a < 10 \<Longrightarrow> b < 10 \<Longrightarrow> digit_char a = digit_char b \<Longrightarrow> a = b"
proof -
  assume a: "a < 10" and b: "b < 10" and eq: "digit_char a = digit_char b"
  have "(of_char (digit_char a) :: nat) = of_char (digit_char b)" using eq by simp
  then show "a = b" using digit_char_code [OF a] digit_char_code [OF b] by simp
qed

lemma pad2_inj:
  assumes "0 \<le> a" "a < 100" "0 \<le> b" "b < 100" "pad2 a = pad2 b"
  shows "a = b"
proof -
  have d: "nat a div 10 < 10" "nat b div 10 < 10" "nat a mod 10 < 10" "nat b mod 10 < 10"
    using assms(1-4) by auto
  have "digit_char (nat a div 10) = digit_char (nat b div 10)"
       "digit_char (nat a mod 10) = digit_char (nat b mod 10)"
    using assms(5) by (simp_all add: pad2_def)
  then have "nat a div 10 = nat b div 10" "nat a mod 10 = nat b mod 10"
    using d digit_char_inj by blast+
  then have "nat a = nat b" by (metis div_mult_mod_eq)
  then show ?thesis using assms(1,3) by simp
qed

lemma strftime_HM_inj:
  assumes "minutes_to_time c = Inr t" "minutes_to_time c' = Inr t'" "strftime_HM t = strftime_HM t'"
  shows "c = c'"
proof -
  have t: "0 \<le> c" "c < 1440" "hour t = c div 60" "minute t = c mod 60"
    using minutes_to_time_Inr [OF assms(1)] by simp_all
  have t': "0 \<le> c'" "c' < 1440" "hour t' = c' div 60" "minute t' = c' mod 60"
    using minutes_to_time_Inr [OF assms(2)] by simp_all
  have "pad2 (hour t) = pad2 (hour t')" "pad2 (minute t) = pad2 (minute t')"
    using assms(3) by (simp_all add: strftime_HM_def pad2_def)
  moreover have "0 \<le> hour t" "hour t < 100" "0 \<le> hour t'" "hour t' < 100"
      "0 \<le> minute t" "minute t < 100" "0 \<le> minute t'" "minute t' < 100"
    using t t' by auto
  ultimately have "hour t = hour t'" "minute t = minute t'"
    using pad2_inj by blast+
  then have "c div 60 = c' div 60" "c mod 60 = c' mod 60" using t t' by simp_all
  then show ?thesis by (metis div_mult_mod_eq)
qed

lemma slot_loop_total:
  assumes dur: "0 \<le> dur" and stride: "0 < dur + b" and e: "e < 1440"
  shows "0 \<le> cur \<Longrightarrow>
      \<exists>ts. slot_loop cur e dur (Some b) occ acc = Some (Inr (acc @ ts))
          \<and> (\<forall>k::nat. cur + int k * (dur + b) + dur \<le> e
                 \<and> \<not> conflicts (cur + int k * (dur + b)) (cur + int k * (dur + b) + dur) occ
               \<longrightarrow> (\<exists>t. minutes_to_time (cur + int k * (dur + b)) = Inr t \<and> t \<in> set ts))"
proof (induction "nat (e + 1 - (cur + dur))" arbitrary: cur acc rule: less_induct)
  case less
  show ?case
  proof (cases "cur + dur \<le> e")
    case False
    have "slot_loop cur e dur (Some b) occ acc = Some (Inr (acc @ []))"
      using False by (subst slot_loop.simps) simp
    moreover have "\<forall>k::nat. \<not> (cur + int k * (dur + b) + dur \<le> e)"
    proof
      fix k :: nat
      have "0 \<le> int k * (dur + b)" using stride by simp
      then show "\<not> (cur + int k * (dur + b) + dur \<le> e)" using False by linarith
    qed
    ultimately show ?thesis by blast
  next
    case True
    let ?next = "cur + (dur + b)"
    have smaller: "nat (e + 1 - (?next + dur)) < nat (e + 1 - (cur + dur))"
      using True stride by linarith
    have next0: "0 \<le> ?next" using less.prems stride by linarith
    obtain t0 where t0: "minutes_to_time cur = Inr t0"
      using minutes_to_time_ok [of cur] less.prems True dur e by fastforce
    have shift: "\<And>j::nat. cur + int (Suc j) * (dur + b) = ?next + int j * (dur + b)"
      by (simp add: algebra_simps)
    show ?thesis
    proof (cases "conflicts cur (cur + dur) occ")
      case c: True
      from less.hyps [OF smaller next0, of acc]
      obtain ts where ts: "slot_loop ?next e dur (Some b) occ acc = Some (Inr (acc @ ts))"
        and all: "\<forall>k::nat. ?next + int k * (dur + b) + dur \<le> e
                 \<and> \<not> conflicts (?next + int k * (dur + b)) (?next + int k * (dur + b) + dur) occ
               \<longrightarrow> (\<exists>t. minutes_to_time (?next + int k * (dur + b)) = Inr t \<and> t \<in> set ts)"
        by blast
      have run: "slot_loop cur e dur (Some b) occ acc = Some (Inr (acc @ ts))"
        using True c ts by (subst slot_loop.simps) simp
      have "\<forall>k::nat. cur + int k * (dur + b) + dur \<le> e
                 \<and> \<not> conflicts (cur + int k * (dur + b)) (cur + int k * (dur + b) + dur) occ
               \<longrightarrow> (\<exists>t. minutes_to_time (cur + int k * (dur + b)) = Inr t \<and> t \<in> set ts)"
      proof (intro allI impI)
        fix k :: nat
        assume k: "cur + int k * (dur + b) + dur \<le> e
                 \<and> \<not> conflicts (cur + int k * (dur + b)) (cur + int k * (dur + b) + dur) occ"
        show "\<exists>t. minutes_to_time (cur + int k * (dur + b)) = Inr t \<and> t \<in> set ts"
        proof (cases k)
          case 0
          with k c show ?thesis by simp
        next
          case (Suc j)
          with k all show ?thesis unfolding Suc shift by blast
        qed
      qed
      with run show ?thesis by blast
    next
      case c: False
      from less.hyps [OF smaller next0, of "acc @ [t0]"]
      obtain ts where ts: "slot_loop ?next e dur (Some b) occ (acc @ [t0]) = Some (Inr ((acc @ [t0]) @ ts))"
        and all: "\<forall>k::nat. ?next + int k * (dur + b) + dur \<le> e
                 \<and> \<not> conflicts (?next + int k * (dur + b)) (?next + int k * (dur + b) + dur) occ
               \<longrightarrow> (\<exists>t. minutes_to_time (?next + int k * (dur + b)) = Inr t \<and> t \<in> set ts)"
        by blast
      have run: "slot_loop cur e dur (Some b) occ acc = Some (Inr (acc @ (t0 # ts)))"
        using True c t0 ts by (subst slot_loop.simps) simp
      have "\<forall>k::nat. cur + int k * (dur + b) + dur \<le> e
                 \<and> \<not> conflicts (cur + int k * (dur + b)) (cur + int k * (dur + b) + dur) occ
               \<longrightarrow> (\<exists>t. minutes_to_time (cur + int k * (dur + b)) = Inr t \<and> t \<in> set (t0 # ts))"
      proof (intro allI impI)
        fix k :: nat
        assume k: "cur + int k * (dur + b) + dur \<le> e
                 \<and> \<not> conflicts (cur + int k * (dur + b)) (cur + int k * (dur + b) + dur) occ"
        show "\<exists>t. minutes_to_time (cur + int k * (dur + b)) = Inr t \<and> t \<in> set (t0 # ts)"
        proof (cases k)
          case 0
          with t0 show ?thesis by simp
        next
          case (Suc j)
          with k all have "\<exists>t. minutes_to_time (?next + int j * (dur + b)) = Inr t \<and> t \<in> set ts"
            unfolding Suc shift by blast
          then show ?thesis unfolding Suc shift by auto
        qed
      qed
      with run show ?thesis by blast
    qed
  qed
qed

section \<open>Facts about the availability service\<close>

lemma try_bind_Inr: "try_bind x f = Inr y \<longleftrightarrow> (\<exists>a. x = Inr a \<and> f a = Inr y)"
  by (cases x) auto

lemma working_window_bounds:
  assumes "working_window py_int ds = Inr (st, et)"
  shows "0 \<le> time_to_minutes st \<and> time_to_minutes st < 1440
         \<and> 0 \<le> time_to_minutes et \<and> time_to_minutes et < 1440"
proof -
  from assms obtain sh sm eh em where "py_time sh sm = Inr st" "py_time eh em = Inr et"
    by (auto simp: working_window_def try_bind_Inr)
  then show ?thesis
    by (auto simp: py_time_def c_int_def time_to_minutes_def split: if_splits)
qed

lemma check_slots_result:
  assumes "check_doctor_availability py_int fromiso s did td cid = Some r" "slots r \<noteq> []"
  shows "\<exists>doctor ds ts. find_doctor s did cid = Some doctor
            \<and> day_slots py_int fromiso s doctor ds did td cid = Some (Inr ts) \<and> r = slots_result ts"
  using assms
  by (auto simp: check_doctor_availability_def no_slots_def
      split: option.splits if_splits sum.splits)

lemma day_slots_loop:
  assumes "day_slots py_int fromiso s doctor ds did td cid = Some (Inr ts)"
  shows "\<exists>st et breaks dur.
           get_default (d_slot_duration doctor) 30 = Some dur
           \<and> slot_loop (time_to_minutes st) (time_to_minutes et) dur
                (get_default (d_buffer_time doctor) 5)
                (booked_slots s did td @ breaks @ blocked_slots s did cid td) []
              = Some (Inr ts)"
  using assms
  by (auto simp: day_slots_def split: sum.splits option.splits if_splits prod.splits)

lemma returned_slot_origin:
  assumes "check_doctor_availability py_int fromiso s did td cid = Some r" "x \<in> set (slots r)"
  shows "\<exists>doctor dur breaks c t.
           find_doctor s did cid = Some doctor
           \<and> get_default (d_slot_duration doctor) 30 = Some dur
           \<and> minutes_to_time c = Inr t \<and> strftime_HM t = x
           \<and> \<not> conflicts c (c + dur)
                (booked_slots s did td @ breaks @ blocked_slots s did cid td)"
proof -
  from assms(2) have "slots r \<noteq> []" by auto
  from check_slots_result [OF assms(1) this]
  obtain doctor ds ts where d: "find_doctor s did cid = Some doctor"
      and ds: "day_slots py_int fromiso s doctor ds did td cid = Some (Inr ts)" and r: "r = slots_result ts"
    by blast
  from day_slots_loop [OF ds]
  obtain st et breaks dur where dur: "get_default (d_slot_duration doctor) 30 = Some dur"
      and loop: "slot_loop (time_to_minutes st) (time_to_minutes et) dur
                (get_default (d_buffer_time doctor) 5)
                (booked_slots s did td @ breaks @ blocked_slots s did cid td) []
              = Some (Inr ts)"
    by blast
  from slot_loop_sound [OF loop]
  have u: "unconflicted dur (booked_slots s did td @ breaks @ blocked_slots s did cid td) [] ts"
    by simp
  from assms(2) r obtain t where t: "t \<in> set ts" "strftime_HM t = x"
    by (auto simp: slots_result_def)
  from u t(1) obtain c where "minutes_to_time c = Inr t"
      "\<not> conflicts c (c + dur) (booked_slots s did td @ breaks @ blocked_slots s did cid td)"
    by (auto simp: unconflicted_def)
  with d dur t(2) show ?thesis by blast
qed

lemma check_reaches_loop:
  assumes "find_doctor s did cid = Some doctor"
      and "\<not> falsy (get_default (d_is_active doctor) True)"
      and "get_default (d_working_hours doctor) (\<lambda>_. Missing) = Some working_hours"
      and "get_default (working_hours (day_name td)) empty_schedule = Some ds"
      and "\<not> falsy (get_default (ds_enabled ds) False)"
      and "working_window py_int ds = Inr (st, et)"
      and "get_default (d_break_times doctor) [] = Some break_times"
      and "break_slots fromiso break_times = Inr breaks"
      and "td + 1 \<le> 3652059"
      and "get_default (d_slot_duration doctor) 30 = Some dur"
      and "slot_loop (time_to_minutes st) (time_to_minutes et) dur
                (get_default (d_buffer_time doctor) 5)
                (booked_slots s did td @ breaks @ blocked_slots s did cid td) []
              = Some (Inr ts)"
  shows "check_doctor_availability py_int fromiso s did td cid = Some (slots_result ts)"
proof -
  have "day_slots py_int fromiso s doctor ds did td cid = Some (Inr ts)"
    using assms(6-11) by (simp add: day_slots_def)
  then show ?thesis
    using assms(1-5) by (simp add: check_doctor_availability_def)
qed

lemmas avail_defs =
  check_doctor_availability_def find_doctor_def day_slots_def falsy_def get_default_def
  day_name_def monday_def weekdays_def ex_doctor_def slots_result_def strftime_HM_def pad2_def
  digit_char_def booked_slots_def blocked_slots_def time_to_minutes_def conflicts_def
  minutes_to_time_def py_time_def c_int_def ex_store_def ex_appointment_def active_def no_iso_def
  ts_le_def midnight_def

lemma nine_to_eleven_window:
  "working_window ascii_int nine_to_eleven
     = Inr (\<lparr>hour = 9, minute = 0, second = 0\<rparr>, \<lparr>hour = 11, minute = 0, second = 0\<rparr>)"
  by (simp add: working_window_def nine_to_eleven_def parse_defs)

lemma schedules_enabled:
  "ds_enabled nine_to_five = Val True" "ds_enabled nine_to_eleven = Val True"
  by (simp_all add: nine_to_five_def nine_to_eleven_def)

lemma conflicts_member:
  "iv \<in> set occ \<Longrightarrow> iv_start iv < slot_end \<Longrightarrow> slot_start < iv_end iv
     \<Longrightarrow> conflicts slot_start slot_end occ"
  unfolding conflicts_def list_ex_iff by (rule bexI [of _ iv]) auto

section \<open>Facts about reading working hours\<close>














lemma digit_plain:
  assumes "is_digit c"
  shows "c \<noteq> CHR '':''" "\<not> is_space c" "c \<noteq> CHR ''-''" "c \<noteq> CHR ''+''" "c \<noteq> CHR ''_''"
        "0 \<le> digit_val c"
  using assms by (auto simp: is_digit_def is_space_def digit_val_def)

lemma ascii_int_two_digits:
  assumes "is_digit a" "is_digit b"
  shows "ascii_int [a, b] = Inr (10 * digit_val a + digit_val b)"
  using assms digit_plain [OF assms(1)] digit_plain [OF assms(2)]
  by (simp add: ascii_int_def strip_def digits_value_def Let_def)

lemma hh_mm_readable: "hh_mm s \<Longrightarrow> readable_time ascii_int s"
proof -
  assume h: "hh_mm s"
  then obtain h1 h2 m1 m2 where s: "s = [h1, h2, CHR '':'', m1, m2]"
    and d: "is_digit h1" "is_digit h2" "is_digit m1" "is_digit m2"
    and r: "10 * digit_val h1 + digit_val h2 \<le> 23" "10 * digit_val m1 + digit_val m2 \<le> 59"
    by (auto simp: hh_mm_def split: list.splits)
  have c: "count_list s CHR '':'' = 1"
    using digit_plain(1) [OF d(1)] digit_plain(1) [OF d(2)]
          digit_plain(1) [OF d(3)] digit_plain(1) [OF d(4)] by (simp add: s)
  have b: "before_colon s = [h1, h2]" "after_colon s = [m1, m2]"
    using digit_plain(1) [OF d(1)] digit_plain(1) [OF d(2)]
    by (simp_all add: s before_colon_def after_colon_def)
  show "readable_time ascii_int s"
    using c r digit_plain(6) [OF d(1)] digit_plain(6) [OF d(2)]
          digit_plain(6) [OF d(3)] digit_plain(6) [OF d(4)]
    by (simp add: readable_time_def b ascii_int_two_digits [OF d(1,2)]
        ascii_int_two_digits [OF d(3,4)])
qed



section \<open>Facts about the rows of a clinic\<close>













lemma upsert_reuses_first:
  "create_or_get_by_phone s c ph n e l w = (p, False, s1) \<Longrightarrow>
     \<exists>rest. filter (\<lambda>q. p_clinic_id q = c \<and> p_phone q = ph) (patients s) = p # rest"
  by (cases "filter (\<lambda>q. p_clinic_id q = c \<and> p_phone q = ph) (patients s)")
     (auto simp: create_or_get_by_phone_def Let_def)

lemma upsert_new:
  "create_or_get_by_phone s c ph n e l w = (p, True, s1) \<Longrightarrow>
     p_id p \<notin> set (map p_id (patients s)) \<and> p_name p = n"
  using fresh_id_new [of "map p_id (patients s)"]
  by (cases "filter (\<lambda>q. p_clinic_id q = c \<and> p_phone q = ph) (patients s)")
     (auto simp: create_or_get_by_phone_def Let_def)

section \<open>Claims\<close>

text \<open>
  C5. With the window 09:00 to 17:00 (minutes 540 to 1020), slots of 30 minutes, a
  buffer of 5 and nothing occupied, the slot walk returns the thirteen starts
  540, 575, 610, ..., 960, one every 35 minutes: they ascend strictly, none is later
  than minute 990, and the service reports the same thirteen slots for a doctor with
  that schedule.
\<close>

theorem slot_walk_nine_to_five:
  "slot_loop 540 1020 30 (Some 5) [] [] = Some (Inr thirteen_slots)
   \<and> map time_to_minutes thirteen_slots = map (\<lambda>k. 540 + 35 * int k) [0..<13]
   \<and> sorted_wrt (<) (map time_to_minutes thirteen_slots)
   \<and> list_all (\<lambda>m. m \<le> 990) (map time_to_minutes thirteen_slots)
   \<and> length thirteen_slots = 13
   \<and> check_doctor_availability ascii_int no_iso (ex_store [ex_doctor 1 1 nine_to_five 30 5] []) 1 monday 1
       = Some \<lparr>available = True,
               slots = [''09:00'', ''09:35'', ''10:10'', ''10:45'', ''11:20'', ''11:55'', ''12:30'',
                        ''13:05'', ''13:40'', ''14:15'', ''14:50'', ''15:25'', ''16:00''],
               message = Text ''Found 13 available slots''\<rparr>"
proof -
  have a: "map time_to_minutes thirteen_slots = map (\<lambda>k. 540 + 35 * int k) [0..<13]"
    by (simp add: thirteen_slots_def time_to_minutes_def upt_rec)
  have b: "sorted_wrt (<) (map time_to_minutes thirteen_slots)"
    by (simp add: thirteen_slots_def time_to_minutes_def)
  have c: "list_all (\<lambda>m. m \<le> 990) (map time_to_minutes thirteen_slots)"
    by (simp add: thirteen_slots_def time_to_minutes_def)
  have d: "length thirteen_slots = 13"
    by (simp add: thirteen_slots_def)
  have e: "check_doctor_availability ascii_int no_iso (ex_store [ex_doctor 1 1 nine_to_five 30 5] []) 1 monday 1
       = Some \<lparr>available = True,
               slots = [''09:00'', ''09:35'', ''10:10'', ''10:45'', ''11:20'', ''11:55'', ''12:30'',
                        ''13:05'', ''13:40'', ''14:15'', ''14:50'', ''15:25'', ''16:00''],
               message = Text ''Found 13 available slots''\<rparr>"
    using thirteen_day
    by (simp add: check_doctor_availability_def find_doctor_def ex_store_def falsy_def
        get_default_def day_name_def monday_def weekdays_def ex_doctor_def nine_to_five_def
        slots_result_def thirteen_slots_def strftime_HM_def pad2_def digit_char_def str_nat.simps)
  from thirteen_loop a b c d e show ?thesis by blast
qed

text \<open>
  C10. When the doctor fetched for the call has \<^verbatim>\<open>is_active\<close> set to false, the answer is
  \<^verbatim>\<open>available = False\<close>, no slots and the message "Doctor is not active", whatever the
  schedule, the appointments and the blocked times in the store are.
\<close>

theorem inactive_doctor_no_slots:
  assumes "find_doctor s doctor_id clinic_id = Some doctor"
      and "d_is_active doctor = Val False"
  shows "check_doctor_availability py_int fromisoformat s doctor_id target_date clinic_id
           = Some \<lparr>available = False, slots = [], message = Text ''Doctor is not active''\<rparr>"
  using assms
  by (simp add: check_doctor_availability_def get_default_def falsy_def no_slots_def)

theorem inactive_doctor_no_slots_witness:
  "find_doctor (ex_store [inactive_doctor] []) 1 1 = Some inactive_doctor
   \<and> d_is_active inactive_doctor = Val False
   \<and> check_doctor_availability ascii_int no_iso (ex_store [inactive_doctor] []) 1 monday 1
       = Some \<lparr>available = False, slots = [], message = Text ''Doctor is not active''\<rparr>"
proof -
  have f: "find_doctor (ex_store [inactive_doctor] []) 1 1 = Some inactive_doctor"
    by (simp add: find_doctor_def ex_store_def inactive_doctor_def ex_doctor_def)
  have a: "d_is_active inactive_doctor = Val False"
    by (simp add: inactive_doctor_def)
  show ?thesis
    using f a inactive_doctor_no_slots [OF f a, of ascii_int no_iso monday] by simp
qed

text \<open>
  C3. Cancel succeeds only for an appointment of the clinic whose status is scheduled
  or confirmed. For an appointment in a terminal status (cancelled, completed,
  no_show) it answers "Cannot cancel appointment with status: ..." and returns the
  store as it was. On success the appointment has status cancelled, the reason given
  and the time of the call as its cancellation time.
\<close>

theorem cancel_status_guard:
  "(r_success (fst (cancel_appointment now s clinic_id appointment_id reason))
      \<longrightarrow> (\<exists>a. find_appointment s clinic_id appointment_id = Some a \<and> active (a_status a)))
   \<and> (\<forall>a. find_appointment s clinic_id appointment_id = Some a \<and> \<not> active (a_status a)
      \<longrightarrow> a_status a \<in> {Cancelled, Completed, NoShow}
          \<and> cancel_appointment now s clinic_id appointment_id reason
            = (\<lparr>r_success = False,
                r_message = Text (''Cannot cancel appointment with status: ''
                                    @ status_str (a_status a))\<rparr>, s))
   \<and> (\<forall>a. find_appointment s clinic_id appointment_id = Some a \<and> active (a_status a)
      \<longrightarrow> r_success (fst (cancel_appointment now s clinic_id appointment_id reason))
          \<and> find_appointment (snd (cancel_appointment now s clinic_id appointment_id reason))
                clinic_id appointment_id
              = Some (a\<lparr>a_status := Cancelled, a_cancellation_reason := reason,
                        a_cancelled_at := Some now\<rparr>))"
proof (intro conjI allI impI)
  assume "r_success (fst (cancel_appointment now s clinic_id appointment_id reason))"
  then show "\<exists>a. find_appointment s clinic_id appointment_id = Some a \<and> active (a_status a)"
    by (auto simp: cancel_appointment_def Let_def not_active_iff[symmetric]
        simp del: set_simps split: option.splits if_splits)
next
  fix a
  assume "find_appointment s clinic_id appointment_id = Some a \<and> \<not> active (a_status a)"
  then show "a_status a \<in> {Cancelled, Completed, NoShow}"
    using not_active_iff by simp
next
  fix a
  assume "find_appointment s clinic_id appointment_id = Some a \<and> \<not> active (a_status a)"
  then show "cancel_appointment now s clinic_id appointment_id reason
            = (\<lparr>r_success = False,
                r_message = Text (''Cannot cancel appointment with status: ''
                                    @ status_str (a_status a))\<rparr>, s)"
    by (simp add: cancel_appointment_def Let_def not_active_iff[symmetric] del: set_simps)
next
  fix a
  assume h: "find_appointment s clinic_id appointment_id = Some a \<and> active (a_status a)"
  then show "r_success (fst (cancel_appointment now s clinic_id appointment_id reason))"
    by (simp add: cancel_appointment_def Let_def not_active_iff[symmetric] del: set_simps)
next
  fix a
  assume h: "find_appointment s clinic_id appointment_id = Some a \<and> active (a_status a)"
  then have "snd (cancel_appointment now s clinic_id appointment_id reason) =
     s\<lparr>appointments := map (\<lambda>a. if a_id a = appointment_id
                                  then a\<lparr>a_status := Cancelled,
                                         a_cancellation_reason := reason,
                                         a_cancelled_at := Some now\<rparr>
                                  else a) (appointments s)\<rparr>"
    by (simp add: cancel_appointment_def Let_def not_active_iff[symmetric] del: set_simps)
  moreover from h have "a_id a = appointment_id" using find_appointment_Some by blast
  ultimately show "find_appointment (snd (cancel_appointment now s clinic_id appointment_id reason))
                clinic_id appointment_id
              = Some (a\<lparr>a_status := Cancelled, a_cancellation_reason := reason,
                        a_cancelled_at := Some now\<rparr>)"
    using h by (simp add: find_appointment_map)
qed

theorem cancel_status_guard_witness:
  "find_appointment two_appointments 1 1 = Some (ex_appointment 1 1 1 monday 10 0 Cancelled)
   \<and> \<not> active (a_status (ex_appointment 1 1 1 monday 10 0 Cancelled))
   \<and> cancel_appointment ex_now two_appointments 1 1 (Some ''again'')
       = (\<lparr>r_success = False,
           r_message = Text ''Cannot cancel appointment with status: cancelled''\<rparr>,
          two_appointments)
   \<and> find_appointment two_appointments 1 2 = Some (ex_appointment 2 1 1 monday 11 0 Confirmed)
   \<and> active (a_status (ex_appointment 2 1 1 monday 11 0 Confirmed))
   \<and> r_success (fst (cancel_appointment ex_now two_appointments 1 2 (Some ''travel'')))
   \<and> find_appointment (snd (cancel_appointment ex_now two_appointments 1 2 (Some ''travel''))) 1 2
       = Some ((ex_appointment 2 1 1 monday 11 0 Confirmed)
                 \<lparr>a_status := Cancelled, a_cancellation_reason := Some ''travel'',
                  a_cancelled_at := Some ex_now\<rparr>)"
proof -
  have 1: "find_appointment two_appointments 1 1 = Some (ex_appointment 1 1 1 monday 10 0 Cancelled)"
    by (simp add: find_appointment_def two_appointments_def ex_store_def ex_appointment_def)
  have 2: "\<not> active (a_status (ex_appointment 1 1 1 monday 10 0 Cancelled))"
    by (simp add: active_def ex_appointment_def)
  have 3: "find_appointment two_appointments 1 2 = Some (ex_appointment 2 1 1 monday 11 0 Confirmed)"
    by (simp add: find_appointment_def two_appointments_def ex_store_def ex_appointment_def)
  have 4: "active (a_status (ex_appointment 2 1 1 monday 11 0 Confirmed))"
    by (simp add: active_def ex_appointment_def)
  have 5: "status_str (a_status (ex_appointment 1 1 1 monday 10 0 Cancelled)) = ''cancelled''"
    by (simp add: status_str_def ex_appointment_def)
  show ?thesis
    using 1 2 3 4 5
      cancel_status_guard [of ex_now two_appointments 1 1 "Some ''again''"]
      cancel_status_guard [of ex_now two_appointments 1 2 "Some ''travel''"]
    by simp
qed

text \<open>
  C4. For an appointment of the clinic with status scheduled or confirmed, Reschedule
  succeeds exactly when no other appointment (one with a different id) of the same
  doctor holds the new date and time with status scheduled or confirmed. After a
  successful Reschedule the appointment has the new date and time, its
  \<^verbatim>\<open>reminder_sent\<close> is false, and its \<^verbatim>\<open>confirmation_sent\<close> and status are what they
  were.
\<close>

theorem reschedule_effect:
  assumes found: "find_appointment s clinic_id appointment_id = Some a"
      and act: "active (a_status a)"
  shows "(r_success (fst (reschedule_appointment now s clinic_id appointment_id new_date new_time))
            \<longleftrightarrow> \<not> (\<exists>b\<in>set (appointments s). a_id b \<noteq> appointment_id
                        \<and> a_doctor_id b = a_doctor_id a
                        \<and> a_date b = new_date \<and> a_time b = new_time \<and> active (a_status b)))
       \<and> (r_success (fst (reschedule_appointment now s clinic_id appointment_id new_date new_time))
            \<longrightarrow> (\<exists>a'. find_appointment
                          (snd (reschedule_appointment now s clinic_id appointment_id
                                  new_date new_time))
                          clinic_id appointment_id = Some a'
                      \<and> a_date a' = new_date \<and> a_time a' = new_time \<and> \<not> a_reminder_sent a'
                      \<and> a_confirmation_sent a' = a_confirmation_sent a
                      \<and> a_status a' = a_status a))"
proof -
  let ?busy = "filter (\<lambda>b. a_doctor_id b = a_doctor_id a \<and> a_date b = new_date
                            \<and> a_time b = new_time \<and> active (a_status b)
                            \<and> a_id b \<noteq> appointment_id) (appointments s) \<noteq> []"
  let ?upd = "\<lambda>a. if a_id a = appointment_id
                   then a\<lparr>a_date := new_date, a_time := new_time,
                          a_rescheduled_at := Some now, a_reminder_sent := False,
                          a_reminder_sent_at := None\<rparr>
                   else a"
  have nt: "a_status a \<notin> set [Cancelled, Completed, NoShow]"
    using act not_active_iff by blast
  have r: "reschedule_appointment now s clinic_id appointment_id new_date new_time =
        (if ?busy
         then (\<lparr>r_success = False, r_message = Text ''The new time slot is already booked''\<rparr>, s)
         else (\<lparr>r_success = True, r_message = Text ''Appointment rescheduled successfully''\<rparr>,
                s\<lparr>appointments := map ?upd (appointments s)\<rparr>))"
    using found nt by (simp add: reschedule_appointment_def Let_def del: set_simps)
  have busy: "?busy \<longleftrightarrow> (\<exists>b\<in>set (appointments s). a_id b \<noteq> appointment_id
                        \<and> a_doctor_id b = a_doctor_id a
                        \<and> a_date b = new_date \<and> a_time b = new_time \<and> active (a_status b))"
    by (auto simp: filter_empty_conv)
  have id: "a_id a = appointment_id" using found find_appointment_Some by blast
  have f: "find_appointment (s\<lparr>appointments := map ?upd (appointments s)\<rparr>) clinic_id appointment_id
            = Some (?upd a)"
    using found by (simp add: find_appointment_map)
  show ?thesis
  proof (cases ?busy)
    case True
    then show ?thesis using r busy by simp
  next
    case False
    then have "reschedule_appointment now s clinic_id appointment_id new_date new_time =
          (\<lparr>r_success = True, r_message = Text ''Appointment rescheduled successfully''\<rparr>,
                s\<lparr>appointments := map ?upd (appointments s)\<rparr>)" using r by simp
    then show ?thesis using False busy f id by simp
  qed
qed

theorem reschedule_effect_witness:
  "find_appointment two_appointments 1 2 = Some (ex_appointment 2 1 1 monday 11 0 Confirmed)
   \<and> active (a_status (ex_appointment 2 1 1 monday 11 0 Confirmed))
   \<and> a_reminder_sent (ex_appointment 2 1 1 monday 11 0 Confirmed)
   \<and> r_success (fst (reschedule_appointment ex_now two_appointments 1 2 monday
                          \<lparr>hour = 11, minute = 0, second = 0\<rparr>))
   \<and> (\<exists>a'. find_appointment
              (snd (reschedule_appointment ex_now two_appointments 1 2 monday
                      \<lparr>hour = 11, minute = 0, second = 0\<rparr>)) 1 2 = Some a'
          \<and> a_date a' = monday \<and> a_time a' = \<lparr>hour = 11, minute = 0, second = 0\<rparr>
          \<and> \<not> a_reminder_sent a' \<and> a_confirmation_sent a' \<and> a_status a' = Confirmed)"
proof -
  let ?a = "ex_appointment 2 1 1 monday 11 0 Confirmed"
  have 1: "find_appointment two_appointments 1 2 = Some ?a"
    by (simp add: find_appointment_def two_appointments_def ex_store_def ex_appointment_def)
  have 2: "active (a_status ?a)"
    by (simp add: active_def ex_appointment_def)
  have 3: "\<not> (\<exists>b\<in>set (appointments two_appointments). a_id b \<noteq> 2
                        \<and> a_doctor_id b = a_doctor_id ?a
                        \<and> a_date b = monday \<and> a_time b = \<lparr>hour = 11, minute = 0, second = 0\<rparr>
                        \<and> active (a_status b))"
    by (simp add: two_appointments_def ex_store_def ex_appointment_def active_def)
  have 4: "a_reminder_sent ?a" "a_confirmation_sent ?a" "a_status ?a = Confirmed"
    by (simp_all add: ex_appointment_def)
  show ?thesis
    using 1 2 3 4
      reschedule_effect [OF 1 2, of ex_now monday "\<lparr>hour = 11, minute = 0, second = 0\<rparr>"]
    by simp
qed

text \<open>
  C2. As stated the claim fails: Book upserts the patient before it checks the slot, so
  a rejected booking of a new caller still leaves a new patient row.
\<close>

theorem rejected_booking_creates_patient:
  "slot_taken taken_at_ten 1 monday ten
   \<and> fst (book_appointment True taken_at_ten (ex_booking 1 ''Ada'' ''+2348012345678''))
       = slot_conflict
   \<and> patients taken_at_ten = []
   \<and> patients (snd (book_appointment True taken_at_ten (ex_booking 1 ''Ada'' ''+2348012345678'')))
       = [ex_patient 1 1 ''Ada'' ''+2348012345678'']"
  by (simp add: book_defs taken_at_ten_def)

text \<open>
  C2, amended. Book first upserts the patient by clinic and phone: an existing patient,
  the first row of the clinic with that phone, is reused and the store is left as it is;
  otherwise a new row with the caller's name and a new id is appended. Either way the
  patient is a row of the store afterwards. Then it checks the slot. If an appointment with status scheduled or confirmed holds the doctor, date
  and time, the answer is the slot conflict and the store is the one the upsert left,
  with the appointments untouched. If none does, one row is appended to the
  appointments, with status scheduled, for that patient, clinic, doctor, date and time.
\<close>

theorem book_upserts_then_checks:
  assumes up: "create_or_get_by_phone s (ac_clinic_id d) (ac_patient_phone d) (ac_patient_name d)
             None ''en'' True = (p, created, s1)"
  shows "p_clinic_id p = ac_clinic_id d \<and> p_phone p = ac_patient_phone d
       \<and> (created \<longleftrightarrow> \<not> (\<exists>q\<in>set (patients s). p_clinic_id q = ac_clinic_id d
                                 \<and> p_phone q = ac_patient_phone d))
       \<and> (if created then patients s1 = patients s @ [p] else s1 = s)
       \<and> appointments s1 = appointments s
       \<and> (slot_taken s (ac_doctor_id d) (ac_date d) (ac_time d)
            \<longrightarrow> book_appointment delivered s d = (slot_conflict, s1))
       \<and> (\<not> slot_taken s (ac_doctor_id d) (ac_date d) (ac_time d)
            \<longrightarrow> (\<exists>row. fst (book_appointment delivered s d) = booked (a_id row)
                   \<and> appointments (snd (book_appointment delivered s d)) = appointments s @ [row]
                   \<and> patients (snd (book_appointment delivered s d)) = patients s1
                   \<and> a_status row = Scheduled \<and> a_patient_id row = p_id p
                   \<and> a_clinic_id row = ac_clinic_id d \<and> a_doctor_id row = ac_doctor_id d
                   \<and> a_date row = ac_date d \<and> a_time row = ac_time d))
       \<and> p \<in> set (patients s1)
       \<and> (created \<longrightarrow> p_id p \<notin> set (map p_id (patients s)) \<and> p_name p = ac_patient_name d)
       \<and> (\<not> created
            \<longrightarrow> (\<exists>rest. filter (\<lambda>q. p_clinic_id q = ac_clinic_id d
                                      \<and> p_phone q = ac_patient_phone d) (patients s)
                          = p # rest))"
proof -
  have 5: "p \<in> set (patients s1)"
    using upsert_patient [OF up] by simp
  have 6: "created \<longrightarrow> p_id p \<notin> set (map p_id (patients s)) \<and> p_name p = ac_patient_name d"
  proof
    assume created
    with up have "create_or_get_by_phone s (ac_clinic_id d) (ac_patient_phone d)
                    (ac_patient_name d) None ''en'' True = (p, True, s1)"
      by simp
    then show "p_id p \<notin> set (map p_id (patients s)) \<and> p_name p = ac_patient_name d"
      by (rule upsert_new)
  qed
  have 7: "\<not> created
            \<longrightarrow> (\<exists>rest. filter (\<lambda>q. p_clinic_id q = ac_clinic_id d
                                      \<and> p_phone q = ac_patient_phone d) (patients s)
                          = p # rest)"
  proof
    assume "\<not> created"
    with up have "create_or_get_by_phone s (ac_clinic_id d) (ac_patient_phone d)
                    (ac_patient_name d) None ''en'' True = (p, False, s1)"
      by simp
    then show "\<exists>rest. filter (\<lambda>q. p_clinic_id q = ac_clinic_id d
                                      \<and> p_phone q = ac_patient_phone d) (patients s)
                          = p # rest"
      by (rule upsert_reuses_first)
  qed
  have 1: "p_clinic_id p = ac_clinic_id d \<and> p_phone p = ac_patient_phone d
       \<and> (created \<longleftrightarrow> \<not> (\<exists>q\<in>set (patients s). p_clinic_id q = ac_clinic_id d
                                 \<and> p_phone q = ac_patient_phone d))
       \<and> (if created then patients s1 = patients s @ [p] else s1 = s)"
    using upsert_patient [OF up] by simp
  have 2: "appointments s1 = appointments s"
    using upsert_appointments [OF up] by simp
  have 3: "slot_taken s (ac_doctor_id d) (ac_date d) (ac_time d)
            \<longrightarrow> book_appointment delivered s d = (slot_conflict, s1)"
    using book_appointment_unfold [OF up, of delivered] by simp
  have 4: "\<not> slot_taken s (ac_doctor_id d) (ac_date d) (ac_time d)
            \<longrightarrow> (\<exists>row. fst (book_appointment delivered s d) = booked (a_id row)
                   \<and> appointments (snd (book_appointment delivered s d)) = appointments s @ [row]
                   \<and> patients (snd (book_appointment delivered s d)) = patients s1
                   \<and> a_status row = Scheduled \<and> a_patient_id row = p_id p
                   \<and> a_clinic_id row = ac_clinic_id d \<and> a_doctor_id row = ac_doctor_id d
                   \<and> a_date row = ac_date d \<and> a_time row = ac_time d)"
  proof
    assume "\<not> slot_taken s (ac_doctor_id d) (ac_date d) (ac_time d)"
    from book_free [OF up this, of delivered]
    show "\<exists>row. fst (book_appointment delivered s d) = booked (a_id row)
                   \<and> appointments (snd (book_appointment delivered s d)) = appointments s @ [row]
                   \<and> patients (snd (book_appointment delivered s d)) = patients s1
                   \<and> a_status row = Scheduled \<and> a_patient_id row = p_id p
                   \<and> a_clinic_id row = ac_clinic_id d \<and> a_doctor_id row = ac_doctor_id d
                   \<and> a_date row = ac_date d \<and> a_time row = ac_time d"
      by blast
  qed
  from 1 2 3 4 5 6 7 show ?thesis by blast
qed

theorem book_upserts_then_checks_witness:
  "create_or_get_by_phone taken_at_ten 1 ''+2348012345678'' ''Ada'' None ''en'' True
     = (ex_patient 1 1 ''Ada'' ''+2348012345678'', True,
        taken_at_ten\<lparr>patients := [ex_patient 1 1 ''Ada'' ''+2348012345678'']\<rparr>)
   \<and> slot_taken taken_at_ten 1 monday ten
   \<and> book_appointment True taken_at_ten (ex_booking 1 ''Ada'' ''+2348012345678'')
       = (slot_conflict, taken_at_ten\<lparr>patients := [ex_patient 1 1 ''Ada'' ''+2348012345678'']\<rparr>)
   \<and> \<not> slot_taken (ex_store [] []) 1 monday ten
   \<and> (\<exists>row. fst (book_appointment True (ex_store [] []) (ex_booking 1 ''Ada'' ''+2348012345678''))
              = booked (a_id row)
          \<and> appointments (snd (book_appointment True (ex_store [] [])
                                 (ex_booking 1 ''Ada'' ''+2348012345678''))) = [row]
          \<and> a_status row = Scheduled \<and> a_patient_id row = 1)
   \<and> patients returning_caller = [ex_patient 2 2 ''Zed'' ''111'', ex_patient 7 1 ''Ada'' ''111'']
   \<and> create_or_get_by_phone returning_caller 1 ''111'' ''Ada'' None ''en'' True
       = (ex_patient 7 1 ''Ada'' ''111'', False, returning_caller)
   \<and> fst (book_appointment True returning_caller (ex_booking 1 ''Ada'' ''111'')) = booked 1
   \<and> map a_patient_id
        (appointments (snd (book_appointment True returning_caller (ex_booking 1 ''Ada'' ''111''))))
       = [7]
   \<and> patients (snd (book_appointment True returning_caller (ex_booking 1 ''Ada'' ''111'')))
       = patients returning_caller"
proof -
  let ?d = "ex_booking 1 ''Ada'' ''+2348012345678''"
  let ?p = "ex_patient 1 1 ''Ada'' ''+2348012345678''"
  let ?e = "ex_booking 1 ''Ada'' ''111''"
  let ?q = "ex_patient 7 1 ''Ada'' ''111''"
  have 6: "create_or_get_by_phone returning_caller (ac_clinic_id ?e) (ac_patient_phone ?e)
             (ac_patient_name ?e) None ''en'' True
           = (?q, False, returning_caller)"
    by (simp add: book_defs returning_caller_def)
  have 7: "\<not> slot_taken returning_caller (ac_doctor_id ?e) (ac_date ?e) (ac_time ?e)"
    by (simp add: book_defs returning_caller_def)
  have 8: "ac_clinic_id ?e = 1" "ac_patient_phone ?e = ''111''" "ac_patient_name ?e = ''Ada''"
      "p_id ?q = 7" "appointments returning_caller = []"
      "patients returning_caller = [ex_patient 2 2 ''Zed'' ''111'', ?q]"
    by (simp_all add: ex_booking_def ex_patient_def ex_store_def returning_caller_def)
  have reuse: "patients returning_caller = [ex_patient 2 2 ''Zed'' ''111'', ?q]
     \<and> create_or_get_by_phone returning_caller 1 ''111'' ''Ada'' None ''en'' True
         = (?q, False, returning_caller)
     \<and> fst (book_appointment True returning_caller ?e) = booked 1
     \<and> map a_patient_id (appointments (snd (book_appointment True returning_caller ?e))) = [7]
     \<and> patients (snd (book_appointment True returning_caller ?e)) = patients returning_caller"
  proof -
    from book_upserts_then_checks [OF 6, of True] 7
    obtain row where row: "fst (book_appointment True returning_caller ?e) = booked (a_id row)"
        "appointments (snd (book_appointment True returning_caller ?e))
           = appointments returning_caller @ [row]"
        "patients (snd (book_appointment True returning_caller ?e)) = patients returning_caller"
        "a_patient_id row = p_id ?q"
      by blast
    have "fst (book_appointment True returning_caller ?e) = booked 1"
      by (simp add: book_defs returning_caller_def)
    with row 6 show ?thesis unfolding 8 by simp
  qed
  have 1: "create_or_get_by_phone taken_at_ten (ac_clinic_id ?d) (ac_patient_phone ?d)
             (ac_patient_name ?d) None ''en'' True
           = (?p, True, taken_at_ten\<lparr>patients := [?p]\<rparr>)"
    by (simp add: book_defs taken_at_ten_def)
  have 2: "create_or_get_by_phone (ex_store [] []) (ac_clinic_id ?d) (ac_patient_phone ?d)
             (ac_patient_name ?d) None ''en'' True
           = (?p, True, (ex_store [] [])\<lparr>patients := [?p]\<rparr>)"
    by (simp add: book_defs)
  have 3: "slot_taken taken_at_ten (ac_doctor_id ?d) (ac_date ?d) (ac_time ?d)"
    by (simp add: book_defs taken_at_ten_def)
  have 4: "\<not> slot_taken (ex_store [] []) (ac_doctor_id ?d) (ac_date ?d) (ac_time ?d)"
    by (simp add: book_defs)
  have 5: "ac_clinic_id ?d = 1" "ac_patient_phone ?d = ''+2348012345678''"
      "ac_patient_name ?d = ''Ada''" "ac_doctor_id ?d = 1" "ac_date ?d = monday"
      "ac_time ?d = ten" "p_id ?p = 1" "appointments (ex_store [] []) = []"
    by (simp_all add: ex_booking_def ten_def ex_patient_def ex_store_def)
  have new: "create_or_get_by_phone taken_at_ten 1 ''+2348012345678'' ''Ada'' None ''en'' True
     = (ex_patient 1 1 ''Ada'' ''+2348012345678'', True,
        taken_at_ten\<lparr>patients := [ex_patient 1 1 ''Ada'' ''+2348012345678'']\<rparr>)
   \<and> slot_taken taken_at_ten 1 monday ten
   \<and> book_appointment True taken_at_ten (ex_booking 1 ''Ada'' ''+2348012345678'')
       = (slot_conflict, taken_at_ten\<lparr>patients := [ex_patient 1 1 ''Ada'' ''+2348012345678'']\<rparr>)
   \<and> \<not> slot_taken (ex_store [] []) 1 monday ten
   \<and> (\<exists>row. fst (book_appointment True (ex_store [] []) (ex_booking 1 ''Ada'' ''+2348012345678''))
              = booked (a_id row)
          \<and> appointments (snd (book_appointment True (ex_store [] [])
                                 (ex_booking 1 ''Ada'' ''+2348012345678''))) = [row]
          \<and> a_status row = Scheduled \<and> a_patient_id row = 1)"
    using 1 2 3 4 book_upserts_then_checks [OF 1, of True] book_upserts_then_checks [OF 2, of True]
    unfolding 5 by auto
  from new reuse show ?thesis by simp
qed

text \<open>
  C1. As stated the claim fails on the code: nothing in Book ties the query for the
  slot to the insert. When two calls for one doctor, date and time each run their
  query before the other's insert, both find the slot free, both succeed, and the
  slot holds two scheduled appointments.
\<close>

theorem interleaved_books_both_succeed:
  "fst (interleave [True, False, True, False, True, False] True
          (ex_booking 1 ''Ada'' ''111'') (ex_booking 1 ''Bob'' ''222'')
          (Started, Started, ex_store [] [])) = Finished (booked 1)
   \<and> fst (snd (interleave [True, False, True, False, True, False] True
          (ex_booking 1 ''Ada'' ''111'') (ex_booking 1 ''Bob'' ''222'')
          (Started, Started, ex_store [] []))) = Finished (booked 2)
   \<and> length (holding (snd (snd (interleave [True, False, True, False, True, False] True
          (ex_booking 1 ''Ada'' ''111'') (ex_booking 1 ''Bob'' ''222'')
          (Started, Started, ex_store [] [])))) 1 monday ten) = 2"
  by (simp add: book_defs)

text \<open>
  C1, amended. When two Book calls for the same doctor, date and time run one after
  the other, the second starting after the first has returned, and the slot is free
  before the first: the run is \<^verbatim>\<open>book_appointment\<close> followed by \<^verbatim>\<open>book_appointment\<close>,
  the first call succeeds, the second answers the slot conflict, and exactly one
  appointment with status scheduled or confirmed holds the slot afterwards. Run this
  way, the calls keep every slot at one such appointment at most if it was so before.
\<close>

theorem sequential_books_one_winner:
  assumes same: "ac_doctor_id d2 = ac_doctor_id d1" "ac_date d2 = ac_date d1" "ac_time d2 = ac_time d1"
      and free: "\<not> slot_taken s (ac_doctor_id d1) (ac_date d1) (ac_time d1)"
  shows "interleave [True, True, True, False, False, False] delivered d1 d2 (Started, Started, s)
           = (Finished (fst (book_appointment delivered s d1)),
              Finished (fst (book_appointment delivered (snd (book_appointment delivered s d1)) d2)),
              snd (book_appointment delivered (snd (book_appointment delivered s d1)) d2))
       \<and> b_success (fst (book_appointment delivered s d1))
       \<and> fst (book_appointment delivered (snd (book_appointment delivered s d1)) d2) = slot_conflict
       \<and> length (holding (snd (book_appointment delivered (snd (book_appointment delivered s d1)) d2))
                   (ac_doctor_id d1) (ac_date d1) (ac_time d1)) = 1
       \<and> ((\<forall>dr dt tm. length (holding s dr dt tm) \<le> 1)
            \<longrightarrow> (\<forall>dr dt tm. length (holding (snd (book_appointment delivered
                                       (snd (book_appointment delivered s d1)) d2)) dr dt tm) \<le> 1))"
proof -
  let ?s1 = "snd (book_appointment delivered s d1)"
  let ?s2 = "snd (book_appointment delivered ?s1 d2)"
  have run: "interleave [True, True, True, False, False, False] delivered d1 d2 (Started, Started, s)
           = (Finished (fst (book_appointment delivered s d1)),
              Finished (fst (book_appointment delivered ?s1 d2)), ?s2)"
    by (simp only: interleave_first interleave_second interleave.simps(1) book_step_thrice
        fst_conv snd_conv)
  obtain p created s0 where up:
    "create_or_get_by_phone s (ac_clinic_id d1) (ac_patient_phone d1) (ac_patient_name d1)
             None ''en'' True = (p, created, s0)"
    by (metis prod_cases3)
  from book_free [OF up free, of delivered]
  obtain row where row: "fst (book_appointment delivered s d1) = booked (a_id row)"
      "appointments ?s1 = appointments s @ [row]" "a_status row = Scheduled"
      "a_doctor_id row = ac_doctor_id d1" "a_date row = ac_date d1" "a_time row = ac_time d1"
    by blast
  have won: "b_success (fst (book_appointment delivered s d1))"
    using row(1) by (simp add: booked_def)
  have h0: "holding s (ac_doctor_id d1) (ac_date d1) (ac_time d1) = []"
    using free slot_taken_holding by simp
  have h1: "holding ?s1 (ac_doctor_id d1) (ac_date d1) (ac_time d1) = [row]"
    using holding_append [OF row(2)] h0 row(3-6) by (simp add: active_def)
  then have taken: "slot_taken ?s1 (ac_doctor_id d2) (ac_date d2) (ac_time d2)"
    using same slot_taken_holding by simp
  from book_taken [OF taken, of delivered]
  have lost: "fst (book_appointment delivered ?s1 d2) = slot_conflict"
    and app: "appointments ?s2 = appointments ?s1"
    by simp_all
  have one: "holding ?s2 (ac_doctor_id d1) (ac_date d1) (ac_time d1) = [row]"
    using h1 app by (simp add: holding_def)
  have inv: "(\<forall>dr dt tm. length (holding s dr dt tm) \<le> 1)
            \<longrightarrow> (\<forall>dr dt tm. length (holding ?s2 dr dt tm) \<le> 1)"
  proof (intro impI allI)
    fix dr dt tm
    assume "\<forall>dr dt tm. length (holding s dr dt tm) \<le> 1"
    then have "\<forall>dr dt tm. length (holding ?s1 dr dt tm) \<le> 1"
      using book_keeps_single_holder by blast
    then show "length (holding ?s2 dr dt tm) \<le> 1"
      by (rule book_keeps_single_holder)
  qed
  from run won lost one inv show ?thesis by simp
qed

theorem sequential_books_one_winner_witness:
  "ac_doctor_id (ex_booking 1 ''Bob'' ''222'') = ac_doctor_id (ex_booking 1 ''Ada'' ''111'')
   \<and> \<not> slot_taken (ex_store [] []) 1 monday ten
   \<and> (\<forall>dr dt tm. length (holding (ex_store [] []) dr dt tm) \<le> 1)
   \<and> b_success (fst (book_appointment True (ex_store [] []) (ex_booking 1 ''Ada'' ''111'')))
   \<and> fst (book_appointment True
            (snd (book_appointment True (ex_store [] []) (ex_booking 1 ''Ada'' ''111'')))
            (ex_booking 1 ''Bob'' ''222'')) = slot_conflict
   \<and> length (holding (snd (book_appointment True
            (snd (book_appointment True (ex_store [] []) (ex_booking 1 ''Ada'' ''111'')))
            (ex_booking 1 ''Bob'' ''222''))) 1 monday ten) = 1
   \<and> (\<forall>dr dt tm. length (holding (snd (book_appointment True
            (snd (book_appointment True (ex_store [] []) (ex_booking 1 ''Ada'' ''111'')))
            (ex_booking 1 ''Bob'' ''222''))) dr dt tm) \<le> 1)"
proof -
  let ?d1 = "ex_booking 1 ''Ada'' ''111''"
  let ?d2 = "ex_booking 1 ''Bob'' ''222''"
  have 1: "ac_doctor_id ?d2 = ac_doctor_id ?d1" "ac_date ?d2 = ac_date ?d1"
      "ac_time ?d2 = ac_time ?d1"
    by (simp_all add: ex_booking_def)
  have 2: "\<not> slot_taken (ex_store [] []) (ac_doctor_id ?d1) (ac_date ?d1) (ac_time ?d1)"
    by (simp add: slot_taken_def ex_store_def)
  have 3: "\<forall>dr dt tm. length (holding (ex_store [] []) dr dt tm) \<le> 1"
    by (simp add: holding_def ex_store_def)
  have 4: "ac_doctor_id ?d1 = 1" "ac_date ?d1 = monday" "ac_time ?d1 = ten"
    by (simp_all add: ex_booking_def ten_def)
  show ?thesis
    using 1 2 3 sequential_books_one_winner [OF 1 2, of True]
    unfolding 4 by simp
qed




text \<open>
  C6. As stated the claim fails in its second half: the slot from 10:30 to 11:00 is
  returned only when the walk proposes it. With the buffer of 5 minutes that the code
  takes by default, a day from 09:00 with an appointment at 10:00 has the candidates
  09:00, 09:35, 10:10, 10:45, ...; the walk never proposes 10:30, and 09:35 and 10:10
  meet the appointment.
\<close>

theorem touching_slot_not_proposed:
  "appointments (booked_at_ten 5) = [ex_appointment 1 1 1 monday 10 0 Scheduled]
   \<and> a_time (ex_appointment 1 1 1 monday 10 0 Scheduled) = ten
   \<and> a_duration_minutes (ex_appointment 1 1 1 monday 10 0 Scheduled) = 30
   \<and> check_doctor_availability ascii_int no_iso (booked_at_ten 5) 1 monday 1
     = Some \<lparr>available = True,
             slots = [''09:00'', ''10:45'', ''11:20'', ''11:55'', ''12:30'', ''13:05'',
                      ''13:40'', ''14:15'', ''14:50'', ''15:25'', ''16:00''],
             message = Text ''Found 11 available slots''\<rparr>"
proof -
  have "check_doctor_availability ascii_int no_iso (booked_at_ten 5) 1 monday 1
     = Some \<lparr>available = True,
             slots = [''09:00'', ''10:45'', ''11:20'', ''11:55'', ''12:30'', ''13:05'',
                      ''13:40'', ''14:15'', ''14:50'', ''15:25'', ''16:00''],
             message = Text ''Found 11 available slots''\<rparr>"
    by (simp add: avail_defs booked_at_ten_def nine_to_five_window schedules_enabled
        slot_loop.simps str_nat.simps)
  then show ?thesis
    by (simp add: booked_at_ten_def ex_store_def ex_appointment_def ten_def)
qed

text \<open>
  C6, amended. Let an appointment with status scheduled or confirmed exist at 10:00 for
  30 minutes for the doctor and date, the doctor's slots being 30 minutes long. Then no
  answer of checkAvailability for that doctor and date contains 10:00. The appointment
  does not exclude the slot from 10:30 to 11:00, which only touches it. And 10:30 is in
  the answer whenever the call reaches the slot walk without an error, 10:30 is a
  candidate of the walk (the start of the day plus a multiple of slot plus buffer, the
  stride being positive, with 11:00 inside the working hours), and no occupied interval
  (appointment, break or blocked time) meets the slot from 10:30 to 11:00.
\<close>

theorem booked_slot_excluded_touching_accepted:
  assumes doc: "find_doctor s doctor_id clinic_id = Some doctor"
      and dur: "get_default (d_slot_duration doctor) 30 = Some 30"
      and apt: "a \<in> set (appointments s)" "a_doctor_id a = doctor_id" "a_date a = target_date"
               "active (a_status a)"
      and at_ten: "hour (a_time a) = 10" "minute (a_time a) = 0" "a_duration_minutes a = 30"
  shows "(\<forall>r. check_doctor_availability py_int fromisoformat s doctor_id target_date clinic_id = Some r
              \<longrightarrow> ''10:00'' \<notin> set (slots r))
       \<and> \<not> conflicts 630 660
             [\<lparr>iv_start = time_to_minutes (a_time a),
               iv_end = time_to_minutes (a_time a) + a_duration_minutes a\<rparr>]
       \<and> (\<not> falsy (get_default (d_is_active doctor) True)
          \<and> get_default (d_working_hours doctor) (\<lambda>_. Missing) = Some working_hours
          \<and> get_default (working_hours (day_name target_date)) empty_schedule = Some day_schedule
          \<and> \<not> falsy (get_default (ds_enabled day_schedule) False)
          \<and> working_window py_int day_schedule = Inr (start_time, end_time)
          \<and> get_default (d_break_times doctor) [] = Some break_times
          \<and> break_slots fromisoformat break_times = Inr breaks
          \<and> target_date + 1 \<le> 3652059
          \<and> get_default (d_buffer_time doctor) 5 = Some buffer
          \<and> 0 < 30 + buffer
          \<and> 630 = time_to_minutes start_time + int k * (30 + buffer)
          \<and> 660 \<le> time_to_minutes end_time
          \<and> \<not> conflicts 630 660
                (booked_slots s doctor_id target_date @ breaks
                   @ blocked_slots s doctor_id clinic_id target_date)
          \<longrightarrow> (\<exists>r. check_doctor_availability py_int fromisoformat s doctor_id target_date clinic_id
                       = Some r
                   \<and> ''10:30'' \<in> set (slots r)))"
proof (intro conjI allI impI)
  fix r
  assume r: "check_doctor_availability py_int fromisoformat s doctor_id target_date clinic_id = Some r"
  show "''10:00'' \<notin> set (slots r)"
  proof
    assume "''10:00'' \<in> set (slots r)"
    from returned_slot_origin [OF r this]
    obtain doctor' dur' breaks' c t where o:
        "find_doctor s doctor_id clinic_id = Some doctor'"
        "get_default (d_slot_duration doctor') 30 = Some dur'"
        "minutes_to_time c = Inr t" "strftime_HM t = ''10:00''"
        "\<not> conflicts c (c + dur')
            (booked_slots s doctor_id target_date @ breaks'
               @ blocked_slots s doctor_id clinic_id target_date)"
      by blast
    have d30: "dur' = 30" using o(1,2) doc dur by simp
    have ten: "minutes_to_time 600 = Inr \<lparr>hour = 10, minute = 0, second = 0\<rparr>"
      by (simp add: minutes_to_time_def py_time_def c_int_def)
    have "strftime_HM t = strftime_HM \<lparr>hour = 10, minute = 0, second = 0\<rparr>"
      using o(4) by (simp add: strftime_HM_def pad2_def digit_char_def)
    then have c: "c = 600" using strftime_HM_inj [OF o(3) ten] by simp
    have "\<lparr>iv_start = 600, iv_end = 630\<rparr> \<in> set (booked_slots s doctor_id target_date)"
    proof -
      have "a \<in> set (filter (\<lambda>apt. a_doctor_id apt = doctor_id \<and> a_date apt = target_date
                       \<and> active (a_status apt)) (appointments s))"
        using apt by simp
      moreover have "\<lparr>iv_start = time_to_minutes (a_time a),
                  iv_end = time_to_minutes (a_time a) + a_duration_minutes a\<rparr>
                    = \<lparr>iv_start = 600, iv_end = 630\<rparr>"
        using at_ten by (simp add: time_to_minutes_def)
      ultimately show ?thesis
        unfolding booked_slots_def by force
    qed
    then have "conflicts 600 630
            (booked_slots s doctor_id target_date @ breaks'
               @ blocked_slots s doctor_id clinic_id target_date)"
      by (intro conflicts_member [of "\<lparr>iv_start = 600, iv_end = 630\<rparr>"]) simp_all
    with o(5) c d30 show False by simp
  qed
next
  show "\<not> conflicts 630 660
             [\<lparr>iv_start = time_to_minutes (a_time a),
               iv_end = time_to_minutes (a_time a) + a_duration_minutes a\<rparr>]"
    using at_ten by (simp add: conflicts_def time_to_minutes_def)
next
  assume h: "\<not> falsy (get_default (d_is_active doctor) True)
          \<and> get_default (d_working_hours doctor) (\<lambda>_. Missing) = Some working_hours
          \<and> get_default (working_hours (day_name target_date)) empty_schedule = Some day_schedule
          \<and> \<not> falsy (get_default (ds_enabled day_schedule) False)
          \<and> working_window py_int day_schedule = Inr (start_time, end_time)
          \<and> get_default (d_break_times doctor) [] = Some break_times
          \<and> break_slots fromisoformat break_times = Inr breaks
          \<and> target_date + 1 \<le> 3652059
          \<and> get_default (d_buffer_time doctor) 5 = Some buffer
          \<and> 0 < 30 + buffer
          \<and> 630 = time_to_minutes start_time + int k * (30 + buffer)
          \<and> 660 \<le> time_to_minutes end_time
          \<and> \<not> conflicts 630 660
                (booked_slots s doctor_id target_date @ breaks
                   @ blocked_slots s doctor_id clinic_id target_date)"
  let ?occ = "booked_slots s doctor_id target_date @ breaks
                   @ blocked_slots s doctor_id clinic_id target_date"
  from h have w: "working_window py_int day_schedule = Inr (start_time, end_time)" by simp
  have b: "0 \<le> time_to_minutes start_time" "time_to_minutes end_time < 1440"
    using working_window_bounds [OF w] by simp_all
  from h have stride: "0 < 30 + buffer" by simp
  from slot_loop_total [of 30 buffer "time_to_minutes end_time" "time_to_minutes start_time" ?occ "[]",
                        OF _ stride b(2) b(1)]
  obtain ts where ts: "slot_loop (time_to_minutes start_time) (time_to_minutes end_time) 30
                          (Some buffer) ?occ [] = Some (Inr ts)"
      and all: "\<forall>k::nat. time_to_minutes start_time + int k * (30 + buffer) + 30
                    \<le> time_to_minutes end_time
                 \<and> \<not> conflicts (time_to_minutes start_time + int k * (30 + buffer))
                       (time_to_minutes start_time + int k * (30 + buffer) + 30) ?occ
               \<longrightarrow> (\<exists>t. minutes_to_time (time_to_minutes start_time + int k * (30 + buffer)) = Inr t
                        \<and> t \<in> set ts)"
    by auto
  from h have k: "time_to_minutes start_time + int k * (30 + buffer) = 630" by simp
  from h have "630 + 30 \<le> time_to_minutes end_time \<and> \<not> conflicts 630 (630 + 30) ?occ" by simp
  with all [rule_format, of k] k obtain t where t: "minutes_to_time 630 = Inr t" "t \<in> set ts"
    by auto
  have hm: "strftime_HM t = ''10:30''"
    using t(1) by (auto simp: minutes_to_time_def py_time_def c_int_def strftime_HM_def pad2_def digit_char_def)
  have loop: "slot_loop (time_to_minutes start_time) (time_to_minutes end_time) 30
                (get_default (d_buffer_time doctor) 5) ?occ [] = Some (Inr ts)"
    using ts h by simp
  have "check_doctor_availability py_int fromisoformat s doctor_id target_date clinic_id
          = Some (slots_result ts)"
  proof (rule check_reaches_loop [OF doc _ _ _ _ w _ _ _ dur loop])
    show "\<not> falsy (get_default (d_is_active doctor) True)" using h by simp
    show "get_default (d_working_hours doctor) (\<lambda>_. Missing) = Some working_hours"
      using h by simp
    show "get_default (working_hours (day_name target_date)) empty_schedule = Some day_schedule"
      using h by simp
    show "\<not> falsy (get_default (ds_enabled day_schedule) False)" using h by simp
    show "get_default (d_break_times doctor) [] = Some break_times" using h by simp
    show "break_slots fromisoformat break_times = Inr breaks" using h by simp
    show "target_date + 1 \<le> 3652059" using h by simp
  qed
  moreover have "''10:30'' \<in> set (slots (slots_result ts))"
    using t(2) hm by (force simp: slots_result_def)
  ultimately show "\<exists>r. check_doctor_availability py_int fromisoformat s doctor_id target_date clinic_id
                       = Some r \<and> ''10:30'' \<in> set (slots r)"
    by blast
qed

theorem booked_slot_excluded_touching_accepted_witness:
  "find_doctor (booked_at_ten 0) 1 1 = Some (ex_doctor 1 1 nine_to_five 30 0)
   \<and> ex_appointment 1 1 1 monday 10 0 Scheduled \<in> set (appointments (booked_at_ten 0))
   \<and> 630 = time_to_minutes \<lparr>hour = 9, minute = 0, second = 0\<rparr> + int 3 * (30 + 0)
   \<and> (\<exists>r. check_doctor_availability ascii_int no_iso (booked_at_ten 0) 1 monday 1 = Some r
          \<and> ''10:00'' \<notin> set (slots r) \<and> ''10:30'' \<in> set (slots r))"
proof -
  let ?doctor = "ex_doctor 1 1 nine_to_five 30 0"
  let ?a = "ex_appointment 1 1 1 monday 10 0 Scheduled"
  have doc: "find_doctor (booked_at_ten 0) 1 1 = Some ?doctor"
    by (simp add: find_doctor_def booked_at_ten_def ex_store_def ex_doctor_def)
  have dur: "get_default (d_slot_duration ?doctor) 30 = Some 30"
    by (simp add: get_default_def ex_doctor_def)
  have apt: "?a \<in> set (appointments (booked_at_ten 0))" "a_doctor_id ?a = 1" "a_date ?a = monday"
      "active (a_status ?a)"
    by (simp_all add: booked_at_ten_def ex_store_def ex_appointment_def active_def)
  have at_ten: "hour (a_time ?a) = 10" "minute (a_time ?a) = 0" "a_duration_minutes ?a = 30"
    by (simp_all add: ex_appointment_def)
  have 1: "\<not> falsy (get_default (d_is_active ?doctor) True)"
    by (simp add: falsy_def get_default_def ex_doctor_def)
  have 2: "get_default (d_working_hours ?doctor) (\<lambda>_. Missing) = Some (weekdays nine_to_five)"
    by (simp add: get_default_def ex_doctor_def)
  have 3: "get_default (weekdays nine_to_five (day_name monday)) empty_schedule = Some nine_to_five"
    by (simp add: get_default_def weekdays_def day_name_def monday_def)
  have 4: "\<not> falsy (get_default (ds_enabled nine_to_five) False)"
    by (simp add: falsy_def get_default_def schedules_enabled)
  have 5: "get_default (d_break_times ?doctor) [] = Some []"
    by (simp add: get_default_def ex_doctor_def)
  have 6: "break_slots no_iso [] = Inr []" by simp
  have 7: "monday + 1 \<le> 3652059" by (simp add: monday_def)
  have 8: "get_default (d_buffer_time ?doctor) 5 = Some 0"
    by (simp add: get_default_def ex_doctor_def)
  have 9: "630 = time_to_minutes \<lparr>hour = 9, minute = 0, second = 0\<rparr> + int 3 * (30 + 0)"
    by (simp add: time_to_minutes_def)
  have 10: "660 \<le> time_to_minutes \<lparr>hour = 17, minute = 0, second = 0\<rparr>"
    by (simp add: time_to_minutes_def)
  have 11: "\<not> conflicts 630 660 (booked_slots (booked_at_ten 0) 1 monday @ []
                                    @ blocked_slots (booked_at_ten 0) 1 1 monday)"
    by (simp add: conflicts_def booked_slots_def blocked_slots_def booked_at_ten_def ex_store_def
        ex_appointment_def active_def time_to_minutes_def)
  note inst = booked_slot_excluded_touching_accepted
      [OF doc dur apt at_ten, of ascii_int no_iso "weekdays nine_to_five" nine_to_five
         "\<lparr>hour = 9, minute = 0, second = 0\<rparr>" "\<lparr>hour = 17, minute = 0, second = 0\<rparr>"
         "[]" "[]" 0 3]
  from inst 1 2 3 4 5 6 7 8 9 10 11 nine_to_five_window
  obtain r where r: "check_doctor_availability ascii_int no_iso (booked_at_ten 0) 1 monday 1 = Some r"
      "''10:30'' \<in> set (slots r)"
    by auto
  from inst r(1) have "''10:00'' \<notin> set (slots r)" by blast
  with doc apt(1) 9 r show ?thesis by blast
qed

text \<open>
  C8. As stated the claim fails, in two ways. The query for blocked times keeps the rows
  that start at or after the date's midnight and end at or before the next midnight, so
  a row that only meets the day is left out: a block from 23:00 of the day before to
  12:00 of the date contributes nothing, and every morning slot is offered. And a row
  that is kept contributes the minutes of day of its two ends, whatever their dates: a
  block from 10:00 of the date to the next midnight becomes the interval from minute 600
  to minute 0, which no slot meets, and the slots at 10:00 and 10:30 are offered.
\<close>

theorem overnight_block_ignored:
  "bt_clinic_id (ex_block (monday - 1) 23 0 monday 12 0) = 1
   \<and> bt_doctor_id (ex_block (monday - 1) 23 0 monday 12 0) = None
   \<and> intersects_day (ex_block (monday - 1) 23 0 monday 12 0) monday
   \<and> blocked_slots (blocked_store (ex_block (monday - 1) 23 0 monday 12 0)) 1 1 monday = []
   \<and> check_doctor_availability ascii_int no_iso
        (blocked_store (ex_block (monday - 1) 23 0 monday 12 0)) 1 monday 1
     = Some \<lparr>available = True, slots = [''09:00'', ''09:30'', ''10:00'', ''10:30''],
             message = Text ''Found 4 available slots''\<rparr>
   \<and> bt_clinic_id (ex_block monday 10 0 (monday + 1) 0 0) = 1
   \<and> bt_doctor_id (ex_block monday 10 0 (monday + 1) 0 0) = None
   \<and> intersects_day (ex_block monday 10 0 (monday + 1) 0 0) monday
   \<and> blocked_slots (blocked_store (ex_block monday 10 0 (monday + 1) 0 0)) 1 1 monday
     = [\<lparr>iv_start = 600, iv_end = 0\<rparr>]
   \<and> check_doctor_availability ascii_int no_iso
        (blocked_store (ex_block monday 10 0 (monday + 1) 0 0)) 1 monday 1
     = Some \<lparr>available = True, slots = [''09:00'', ''09:30'', ''10:00'', ''10:30''],
             message = Text ''Found 4 available slots''\<rparr>"
proof -
  have "bt_clinic_id (ex_block (monday - 1) 23 0 monday 12 0) = 1
   \<and> bt_doctor_id (ex_block (monday - 1) 23 0 monday 12 0) = None
   \<and> intersects_day (ex_block (monday - 1) 23 0 monday 12 0) monday
   \<and> blocked_slots (blocked_store (ex_block (monday - 1) 23 0 monday 12 0)) 1 1 monday = []
   \<and> check_doctor_availability ascii_int no_iso
        (blocked_store (ex_block (monday - 1) 23 0 monday 12 0)) 1 monday 1
     = Some \<lparr>available = True, slots = [''09:00'', ''09:30'', ''10:00'', ''10:30''],
             message = Text ''Found 4 available slots''\<rparr>"
    by (simp add: avail_defs intersects_day_def blocked_store_def ex_block_def
        nine_to_eleven_window schedules_enabled slot_loop.simps str_nat.simps)
  moreover have "bt_clinic_id (ex_block monday 10 0 (monday + 1) 0 0) = 1
   \<and> bt_doctor_id (ex_block monday 10 0 (monday + 1) 0 0) = None
   \<and> intersects_day (ex_block monday 10 0 (monday + 1) 0 0) monday
   \<and> blocked_slots (blocked_store (ex_block monday 10 0 (monday + 1) 0 0)) 1 1 monday
     = [\<lparr>iv_start = 600, iv_end = 0\<rparr>]
   \<and> check_doctor_availability ascii_int no_iso
        (blocked_store (ex_block monday 10 0 (monday + 1) 0 0)) 1 monday 1
     = Some \<lparr>available = True, slots = [''09:00'', ''09:30'', ''10:00'', ''10:30''],
             message = Text ''Found 4 available slots''\<rparr>"
    by (simp add: avail_defs intersects_day_def blocked_store_def ex_block_def
        nine_to_eleven_window schedules_enabled slot_loop.simps str_nat.simps)
  ultimately show ?thesis by simp
qed

text \<open>
  C8, amended. The occupancy computation for a date includes every blocked-time row of
  the clinic (with no doctor, or with the queried doctor) that lies within the day, that
  is, starts at or after the date's 00:00 and ends before the next day's 00:00, as the
  interval from the minute of day of its start to the minute of day of its end; and no
  slot that checkAvailability returns meets such an interval.
\<close>

theorem contained_block_occupies:
  assumes row: "b \<in> set (blocked_times s)"
      and clinic: "bt_clinic_id b = clinic_id"
      and who: "bt_doctor_id b = None \<or> bt_doctor_id b = Some doctor_id"
      and starts: "ts_le (midnight target_date) (bt_start_datetime b)"
      and ends: "\<not> ts_le (midnight (target_date + 1)) (bt_end_datetime b)"
  shows "\<lparr>iv_start = time_to_minutes (ts_time (bt_start_datetime b)),
          iv_end = time_to_minutes (ts_time (bt_end_datetime b))\<rparr>
           \<in> set (blocked_slots s doctor_id clinic_id target_date)
       \<and> (\<forall>r doctor dur c t.
             check_doctor_availability py_int fromisoformat s doctor_id target_date clinic_id = Some r
             \<and> find_doctor s doctor_id clinic_id = Some doctor
             \<and> get_default (d_slot_duration doctor) 30 = Some dur
             \<and> minutes_to_time c = Inr t
             \<and> time_to_minutes (ts_time (bt_start_datetime b)) < c + dur
             \<and> c < time_to_minutes (ts_time (bt_end_datetime b))
             \<longrightarrow> strftime_HM t \<notin> set (slots r))"
proof -
  let ?iv = "\<lparr>iv_start = time_to_minutes (ts_time (bt_start_datetime b)),
          iv_end = time_to_minutes (ts_time (bt_end_datetime b))\<rparr>"
  have before: "ts_le (bt_end_datetime b) (midnight (target_date + 1))"
    using ends unfolding ts_le_def not_le by (rule less_imp_le)
  have "b \<in> set (filter (\<lambda>b. bt_clinic_id b = clinic_id
                     \<and> (bt_doctor_id b = Some doctor_id \<or> bt_doctor_id b = None)
                     \<and> ts_le (midnight target_date) (bt_start_datetime b)
                     \<and> ts_le (bt_end_datetime b) (midnight (target_date + 1)))
          (blocked_times s))"
    using row clinic who starts before by auto
  then have mem: "?iv \<in> set (blocked_slots s doctor_id clinic_id target_date)"
    unfolding blocked_slots_def by force
  have "\<forall>r doctor dur c t.
             check_doctor_availability py_int fromisoformat s doctor_id target_date clinic_id = Some r
             \<and> find_doctor s doctor_id clinic_id = Some doctor
             \<and> get_default (d_slot_duration doctor) 30 = Some dur
             \<and> minutes_to_time c = Inr t
             \<and> time_to_minutes (ts_time (bt_start_datetime b)) < c + dur
             \<and> c < time_to_minutes (ts_time (bt_end_datetime b))
             \<longrightarrow> strftime_HM t \<notin> set (slots r)"
  proof (intro allI impI notI)
    fix r doctor dur c t
    assume h: "check_doctor_availability py_int fromisoformat s doctor_id target_date clinic_id = Some r
             \<and> find_doctor s doctor_id clinic_id = Some doctor
             \<and> get_default (d_slot_duration doctor) 30 = Some dur
             \<and> minutes_to_time c = Inr t
             \<and> time_to_minutes (ts_time (bt_start_datetime b)) < c + dur
             \<and> c < time_to_minutes (ts_time (bt_end_datetime b))"
      and x: "strftime_HM t \<in> set (slots r)"
    from h have r: "check_doctor_availability py_int fromisoformat s doctor_id target_date clinic_id = Some r"
      by simp
    from returned_slot_origin [OF r x]
    obtain doctor' dur' breaks c' t' where o:
        "find_doctor s doctor_id clinic_id = Some doctor'"
        "get_default (d_slot_duration doctor') 30 = Some dur'"
        "minutes_to_time c' = Inr t'" "strftime_HM t' = strftime_HM t"
        "\<not> conflicts c' (c' + dur')
            (booked_slots s doctor_id target_date @ breaks
               @ blocked_slots s doctor_id clinic_id target_date)"
      by blast
    have d: "dur' = dur" using o(1,2) h by simp
    from h have t: "minutes_to_time c = Inr t" by simp
    have c: "c' = c" using strftime_HM_inj [OF o(3) t o(4)] .
    have "conflicts c (c + dur)
            (booked_slots s doctor_id target_date @ breaks
               @ blocked_slots s doctor_id clinic_id target_date)"
      using mem h by (intro conflicts_member [of ?iv]) simp_all
    with o(5) c d show False by simp
  qed
  with mem show ?thesis by blast
qed

theorem contained_block_occupies_witness:
  "ex_block monday 9 30 monday 10 30
      \<in> set (blocked_times (blocked_store (ex_block monday 9 30 monday 10 30)))
   \<and> ts_le (midnight monday) (bt_start_datetime (ex_block monday 9 30 monday 10 30))
   \<and> \<not> ts_le (midnight (monday + 1)) (bt_end_datetime (ex_block monday 9 30 monday 10 30))
   \<and> \<lparr>iv_start = 570, iv_end = 630\<rparr>
        \<in> set (blocked_slots (blocked_store (ex_block monday 9 30 monday 10 30)) 1 1 monday)
   \<and> minutes_to_time 600 = Inr ten
   \<and> check_doctor_availability ascii_int no_iso (blocked_store (ex_block monday 9 30 monday 10 30)) 1 monday 1
       = Some \<lparr>available = True, slots = [''09:00'', ''10:30''],
               message = Text ''Found 2 available slots''\<rparr>
   \<and> strftime_HM ten \<notin> set [''09:00'', ''10:30'']"
proof -
  let ?b = "ex_block monday 9 30 monday 10 30"
  let ?s = "blocked_store ?b"
  have row: "?b \<in> set (blocked_times ?s)" by (simp add: blocked_store_def)
  have clinic: "bt_clinic_id ?b = 1" by (simp add: ex_block_def)
  have who: "bt_doctor_id ?b = None \<or> bt_doctor_id ?b = Some 1" by (simp add: ex_block_def)
  have starts: "ts_le (midnight monday) (bt_start_datetime ?b)"
    by (simp add: ts_le_def midnight_def ex_block_def)
  have ends: "\<not> ts_le (midnight (monday + 1)) (bt_end_datetime ?b)"
    by (simp add: ts_le_def midnight_def ex_block_def monday_def)
  have iv: "time_to_minutes (ts_time (bt_start_datetime ?b)) = 570"
      "time_to_minutes (ts_time (bt_end_datetime ?b)) = 630"
    by (simp_all add: time_to_minutes_def ex_block_def)
  have t: "minutes_to_time 600 = Inr ten"
    by (simp add: minutes_to_time_def py_time_def c_int_def ten_def)
  have r: "check_doctor_availability ascii_int no_iso ?s 1 monday 1
       = Some \<lparr>available = True, slots = [''09:00'', ''10:30''],
               message = Text ''Found 2 available slots''\<rparr>"
    by (simp add: avail_defs blocked_store_def ex_block_def nine_to_eleven_window
        schedules_enabled slot_loop.simps str_nat.simps)
  have d: "find_doctor ?s 1 1 = Some (ex_doctor 1 1 nine_to_eleven 30 0)"
    by (simp add: find_doctor_def blocked_store_def ex_doctor_def)
  have dur: "get_default (d_slot_duration (ex_doctor 1 1 nine_to_eleven 30 0)) 30 = Some 30"
    by (simp add: get_default_def ex_doctor_def)
  note inst = contained_block_occupies [OF row clinic who starts ends, of ascii_int no_iso]
  from inst have "\<lparr>iv_start = 570, iv_end = 630\<rparr> \<in> set (blocked_slots ?s 1 1 monday)"
    unfolding iv by simp
  moreover from inst r d dur t have "strftime_HM ten \<notin> set [''09:00'', ''10:30'']"
    unfolding iv by fastforce
  ultimately show ?thesis using row starts ends t r by simp
qed




end
